theory Spec2Isabelle
  imports Main "HOL-Library.Word"
begin

section \<open>JavaScript strings\<close>

text \<open>
  A JavaScript string is a sequence of UTF-16 code units; \<open>length\<close>, \<open>substring\<close>,
  \<open>trim\<close> and the regular expression class \<open>\s\<close> all work on code units.
  \<open>js\<close> embeds an ASCII literal.
\<close>

type_synonym jschar = "16 word"
type_synonym jsstring = "jschar list"

definition js :: "string \<Rightarrow> jsstring" where
  "js s = map of_char s"

text \<open>
  The characters matched by \<open>\s\<close> and stripped by \<open>String.prototype.trim\<close>
  (ECMAScript WhiteSpace and LineTerminator): TAB, LF, VT, FF, CR, SP, NBSP, U+1680,
  U+2000 to U+200A, U+2028, U+2029, U+202F, U+205F, U+3000 and U+FEFF.
\<close>

definition is_ws :: "jschar \<Rightarrow> bool" where
  "is_ws c \<longleftrightarrow>
     c \<in> set [0x9, 0xA, 0xB, 0xC, 0xD, 0x20, 0xA0, 0x1680, 0x2028, 0x2029, 0x202F,
               0x205F, 0x3000, 0xFEFF]
     \<or> (0x2000 \<le> c \<and> c \<le> 0x200A)"

definition trim :: "jsstring \<Rightarrow> jsstring" where
  "trim s = rev (dropWhile is_ws (rev (dropWhile is_ws s)))"

text \<open>
  \<open>s.replace(/\s\s+/g, ' ')\<close>: scanning from the left, every maximal run of two or
  more whitespace characters becomes one space; a whitespace character standing alone
  is not matched and stays as it is.
\<close>

function replace_ws_runs :: "jsstring \<Rightarrow> jsstring" where
  "replace_ws_runs [] = []"
| "replace_ws_runs [c] = [c]"
| "replace_ws_runs (c # d # cs) =
     (if is_ws c \<and> is_ws d then 0x20 # replace_ws_runs (dropWhile is_ws cs)
      else c # replace_ws_runs (d # cs))"
  by pat_completeness auto
termination
  by (relation "measure length") (auto simp: length_dropWhile_le less_Suc_eq_le le_SucI)

text \<open>Decimal text of a non-negative integer, as a template literal prints a number.\<close>

fun digits :: "nat \<Rightarrow> jsstring" where
  "digits n = (if n < 10 then [of_nat (48 + n)]
               else digits (n div 10) @ [of_nat (48 + n mod 10)])"

declare digits.simps [simp del]

definition pad :: "nat \<Rightarrow> nat \<Rightarrow> jsstring" where
  "pad k n = replicate (k - length (digits n)) 0x30 @ digits n"

section \<open>JavaScript values as they come out of JSON.parse\<close>

text \<open>
  \<open>JUndefined\<close> is what reading a missing property gives. A number is kept as the text
  that \<open>String()\<close> gives it (zero, also negative zero, is the text \<open>0\<close>; JSON has no
  NaN), so that truthiness and string conversion need no floating point. An object is
  the list of its own properties, one entry for each key.
\<close>

datatype jsval =
    JUndefined
  | JNull
  | JBool bool
  | JNum jsstring
  | JStr jsstring
  | JArr "jsval list"
  | JObj "(jsstring \<times> jsval) list"

fun truthy :: "jsval \<Rightarrow> bool" where
  "truthy JUndefined = False"
| "truthy JNull = False"
| "truthy (JBool b) = b"
| "truthy (JNum n) = (n \<noteq> js ''0'')"
| "truthy (JStr s) = (s \<noteq> [])"
| "truthy (JArr xs) = True"
| "truthy (JObj ps) = True"

text \<open>\<open>a || b\<close>\<close>

definition js_or :: "jsval \<Rightarrow> jsval \<Rightarrow> jsval" where
  "js_or a b = (if truthy a then a else b)"

text \<open>
  String conversion, as a template literal and the argument of \<open>JSON.parse\<close> apply it;
  \<open>Inl\<close> carries the message \<open>cmsg\<close> of the TypeError it can throw. An array joins
  its elements with commas, null and undefined elements printing as nothing. An object
  whose own properties include \<open>toString\<close> cannot be converted: the property is no
  function (nothing that comes out of JSON or a query string is), the inherited
  \<open>valueOf\<close> returns the object itself, and the conversion throws. Any other
  plain object prints as \<open>[object Object]\<close>.
\<close>

fun to_string :: "jsstring \<Rightarrow> jsval \<Rightarrow> jsstring + jsstring"
  and join_comma :: "jsstring \<Rightarrow> jsval list \<Rightarrow> jsstring + jsstring" where
  "to_string cmsg JUndefined = Inr (js ''undefined'')"
| "to_string cmsg JNull = Inr (js ''null'')"
| "to_string cmsg (JBool b) = Inr (if b then js ''true'' else js ''false'')"
| "to_string cmsg (JNum n) = Inr n"
| "to_string cmsg (JStr s) = Inr s"
| "to_string cmsg (JArr xs) = join_comma cmsg xs"
| "to_string cmsg (JObj ps) =
     (case map_of ps (js ''toString'') of
        Some f \<Rightarrow> Inl cmsg
      | None \<Rightarrow> Inr (js ''[object Object]''))"
| "join_comma cmsg [] = Inr []"
| "join_comma cmsg (x # xs) =
     (case (if x = JNull \<or> x = JUndefined then Inr [] else to_string cmsg x) of
        Inl e \<Rightarrow> Inl e
      | Inr sx \<Rightarrow>
          if xs = [] then Inr sx
          else (case join_comma cmsg xs of
                  Inl e \<Rightarrow> Inl e
                | Inr rest \<Rightarrow> Inr (sx @ js '','' @ rest)))"

text \<open>
  Property reads. The source only reads the names \<open>details\<close>, \<open>error\<close>,
  \<open>message\<close>, \<open>candidates\<close>, \<open>content\<close>, \<open>parts\<close>, \<open>text\<close>,
  \<open>companyName\<close>, \<open>role\<close>, \<open>location\<close>, \<open>summary\<close> and the index \<open>0\<close>;
  none of the names is a property of a string, number, boolean or array, so there the
  read gives undefined. Reading a property of null or undefined throws a TypeError,
  whose message the engine chooses; \<open>Inl\<close> carries the message of what is thrown.
\<close>

text \<open>\<open>v?.k\<close>: undefined when \<open>v\<close> is null or undefined, the property otherwise.\<close>

fun opt_prop :: "jsval \<Rightarrow> string \<Rightarrow> jsval" where
  "opt_prop (JObj ps) k = (case map_of ps (js k) of Some v \<Rightarrow> v | None \<Rightarrow> JUndefined)"
| "opt_prop v k = JUndefined"

text \<open>\<open>v.k\<close>, with the message \<open>tmsg\<close> of the TypeError.\<close>

definition get_prop :: "jsstring \<Rightarrow> jsval \<Rightarrow> string \<Rightarrow> jsstring + jsval" where
  "get_prop tmsg v k = (if v = JNull \<or> v = JUndefined then Inl tmsg else Inr (opt_prop v k))"

text \<open>
  \<open>v[0]\<close> and \<open>v?.[0]\<close> for a value that is not read when null or undefined: the
  first element of an array, the first code unit of a string, the property \<open>0\<close> of
  an object, undefined otherwise.
\<close>

fun opt_index0 :: "jsval \<Rightarrow> jsval" where
  "opt_index0 (JArr xs) = (case xs of [] \<Rightarrow> JUndefined | x # _ \<Rightarrow> x)"
| "opt_index0 (JStr s) = (case s of [] \<Rightarrow> JUndefined | c # _ \<Rightarrow> JStr [c])"
| "opt_index0 (JObj ps) = (case map_of ps (js ''0'') of Some v \<Rightarrow> v | None \<Rightarrow> JUndefined)"
| "opt_index0 v = JUndefined"

text \<open>\<open>typeof v === 'string'\<close>\<close>

fun is_string :: "jsval \<Rightarrow> bool" where
  "is_string (JStr s) = True"
| "is_string v = False"

section \<open>The fetch API\<close>

record response =
  http_status :: nat
  statusText :: jsstring
  body_read :: "jsstring + jsstring"

text \<open>
  \<open>body_read\<close> is what reading the body gives: the text, or (\<open>Inl\<close>) the message of the
  error the read rejects with. \<open>response.ok\<close> is true for a status from 200 to 299.
\<close>

definition ok :: "response \<Rightarrow> bool" where
  "ok r \<longleftrightarrow> 200 \<le> http_status r \<and> http_status r \<le> 299"

datatype fetch_outcome = Rejected jsstring | Responded response

text \<open>
  The two requests of the front end: the GET to the proxy, with its URL, and the POST
  to the generation service, with its URL and the prompt of its payload (the rest of
  the payload, the response schema, is a constant).
\<close>

datatype request = Get jsstring | Post jsstring jsstring

section \<open>The current date\<close>

text \<open>
  \<open>new Date().toISOString()\<close>: the time value is the number of milliseconds since
  the epoch, and the text is the UTC calendar date and time of day,
  \<open>YYYY-MM-DDTHH:mm:ss.sssZ\<close>, the year with a sign and six digits outside 0 to 9999.
\<close>

definition civil_from_days :: "int \<Rightarrow> int \<times> int \<times> int" where
  "civil_from_days z0 =
     (let z = z0 + 719468;
          era = z div 146097;
          doe = z mod 146097;
          yoe = (doe - doe div 1460 + doe div 36524 - doe div 146096) div 365;
          y = yoe + era * 400;
          doy = doe - (365 * yoe + yoe div 4 - yoe div 100);
          mp = (5 * doy + 2) div 153;
          d = doy - (153 * mp + 2) div 5 + 1;
          m = (if mp < 10 then mp + 3 else mp - 9)
      in (if m \<le> 2 then y + 1 else y, m, d))"

definition year_text :: "int \<Rightarrow> jsstring" where
  "year_text y =
     (if 0 \<le> y \<and> y \<le> 9999 then pad 4 (nat y)
      else (if y < 0 then js ''-'' else js ''+'') @ pad 6 (nat \<bar>y\<bar>))"

definition date_text :: "int \<Rightarrow> jsstring" where
  "date_text t =
     (case civil_from_days (t div 86400000) of
        (y, m, d) \<Rightarrow> year_text y @ js ''-'' @ pad 2 (nat m) @ js ''-'' @ pad 2 (nat d))"

definition toISOString :: "int \<Rightarrow> jsstring" where
  "toISOString t =
     (let ms = nat (t mod 86400000)
      in date_text t @ js ''T'' @ pad 2 (ms div 3600000) @ js '':''
         @ pad 2 (ms div 60000 mod 60) @ js '':'' @ pad 2 (ms div 1000 mod 60)
         @ js ''.'' @ pad 3 (ms mod 1000) @ js ''Z'')"

text \<open>\<open>s.split('T')[0]\<close>: the text before the first \<open>T\<close>.\<close>

definition split_T_0 :: "jsstring \<Rightarrow> jsstring" where
  "split_T_0 s = takeWhile (\<lambda>c. c \<noteq> of_char CHR ''T'') s"

section \<open>The extraction pipeline (handleExtractDetails)\<close>

text \<open>
  What the handler reads of the parsed document, after the elements matching
  \<open>script, style, nav, footer, header, aside, .sidebar, #sidebar, link[rel="stylesheet"]\<close>
  have been removed: the \<open>innerText\<close> of the first element matching
  \<open>main, article, .main-content, #main, [role="main"], .job-description, #job-details\<close>
  (\<open>None\<close> when \<open>querySelector\<close> gives null) and the \<open>innerText\<close> of
  \<open>document.body\<close> (\<open>None\<close> when the body is null). A matched element that
  has no \<open>innerText\<close> is handled by line 246 as one whose text is empty.
\<close>

record parsed_doc =
  mainContentElement :: "jsstring option"
  body :: "jsstring option"

text \<open>The draft; \<open>job_notes\<close> is the field \<open>notes\<close>.\<close>

record job_data =
  companyName :: jsval
  role :: jsval
  location :: jsval
  job_notes :: jsval
  dateApplied :: jsstring
  status :: jsstring
  link :: jsstring
  platformPosted :: jsstring
  referralOptions :: jsstring
  personPosted :: jsstring

text \<open>The React state that the handler reads and writes.\<close>

record app_state =
  jobPostUrl :: jsstring
  jobDescriptionText :: jsstring
  isExtracting :: bool
  extractionError :: jsstring
  currentJob :: "job_data option"
  showExtractionModal :: bool
  showForm :: bool

text \<open>
  Everything outside the handler: the build-time environment variable, the browser's
  \<open>encodeURIComponent\<close> (which throws on a lone surrogate), \<open>fetch\<close>, the
  \<open>DOMParser\<close> with the queries above, \<open>JSON.parse\<close> (\<open>Inl\<close> is the message
  of its SyntaxError), the messages of the engine's TypeErrors for a property read of
  null and for an object that cannot be converted to a string, and the clock.
\<close>

record world =
  REACT_APP_BACKEND_URL :: "jsstring option"
  encodeURIComponent :: "jsstring \<Rightarrow> jsstring + jsstring"
  fetch :: "request \<Rightarrow> fetch_outcome"
  parseFromString :: "jsstring \<Rightarrow> parsed_doc"
  JSON_parse :: "jsstring \<Rightarrow> jsstring + jsval"
  typeError :: jsstring
  toPrimitiveError :: jsstring
  now :: int

definition JobStatus_SAVED :: jsstring where
  "JobStatus_SAVED = js ''Saved (Not Applied)''"

definition backendBaseUrl :: "world \<Rightarrow> jsstring" where
  "backendBaseUrl w =
     (case REACT_APP_BACKEND_URL w of
        Some u \<Rightarrow> if u \<noteq> [] then u else js ''http://localhost:3001''
      | None \<Rightarrow> js ''http://localhost:3001'')"

text \<open>\<open>await response.json()\<close>\<close>

definition response_json :: "world \<Rightarrow> response \<Rightarrow> jsstring + jsval" where
  "response_json w r = (case body_read r of Inl e \<Rightarrow> Inl e | Inr b \<Rightarrow> JSON_parse w b)"

text \<open>
  Lines 230 to 234: \<open>errorDetails\<close> starts as the status text; the inner \<open>try\<close>
  replaces it by \<open>errorData.details || errorData.error || response.statusText\<close>
  unless reading the JSON body or the property throws.
\<close>

definition errorDetails :: "world \<Rightarrow> response \<Rightarrow> jsval" where
  "errorDetails w r =
     (case response_json w r of
        Inl e \<Rightarrow> JStr (statusText r)
      | Inr errorData \<Rightarrow>
          (case get_prop (typeError w) errorData ''details'' of
             Inl e \<Rightarrow> JStr (statusText r)
           | Inr details \<Rightarrow>
               (case get_prop (typeError w) errorData ''error'' of
                  Inl e \<Rightarrow> JStr (statusText r)
                | Inr err \<Rightarrow> js_or details (js_or err (JStr (statusText r))))))"

text \<open>\<open>docHtml.body.innerText\<close>: a TypeError when the body is null.\<close>

definition body_innerText :: "world \<Rightarrow> parsed_doc \<Rightarrow> jsstring + jsstring" where
  "body_innerText w d = (case body d of None \<Rightarrow> Inl (typeError w) | Some b \<Rightarrow> Inr b)"

text \<open>Lines 243 to 249: the text of the landmark, or of the body.\<close>

definition selected_text :: "world \<Rightarrow> parsed_doc \<Rightarrow> jsstring + jsstring" where
  "selected_text w d =
     (case (case mainContentElement d of
              Some t \<Rightarrow> Inr t
            | None \<Rightarrow> body_innerText w d) of
        Inl e \<Rightarrow> Inl e
      | Inr textToProcess \<Rightarrow>
          if textToProcess = [] \<or> length (trim textToProcess) < 50
          then body_innerText w d
          else Inr textToProcess)"

definition proxy_request :: "world \<Rightarrow> jsstring \<Rightarrow> request" where
  "proxy_request w enc = Get (backendBaseUrl w @ js ''/proxy?url='' @ enc)"

text \<open>
  Lines 225 to 255, the body of the \<open>try\<close>: \<open>Inl\<close> is the message of what is thrown,
  \<open>Inr\<close> the text; the second component lists the requests sent. The template
  literal of line 235 converts \<open>errorDetails\<close> to a string, which can throw.
\<close>

definition url_path :: "world \<Rightarrow> jsstring \<Rightarrow> (jsstring + jsstring) \<times> request list" where
  "url_path w url =
     (case encodeURIComponent w url of
        Inl e \<Rightarrow> (Inl e, [])
      | Inr enc \<Rightarrow>
          ((case fetch w (proxy_request w enc) of
              Rejected e \<Rightarrow> Inl e
            | Responded r \<Rightarrow>
                if \<not> ok r then
                  (case to_string (toPrimitiveError w) (errorDetails w r) of
                     Inl e \<Rightarrow> Inl e
                   | Inr details \<Rightarrow>
                       Inl (js ''Failed to fetch URL via proxy: '' @ details
                            @ js '' (Status: '' @ digits (http_status r) @ js '')''))
                else
                  (case body_read r of
                     Inl e \<Rightarrow> Inl e
                   | Inr htmlContent \<Rightarrow>
                       (case selected_text w (parseFromString w htmlContent) of
                          Inl e \<Rightarrow> Inl e
                        | Inr t \<Rightarrow>
                            (let textToProcess = trim (replace_ws_runs t)
                             in if trim textToProcess = []
                                then Inl (js ''Could not extract meaningful text content from the URL after parsing.'')
                                else Inr textToProcess)))),
           [proxy_request w enc]))"

text \<open>Lines 270 to 273.\<close>

definition truncated :: "jsstring \<Rightarrow> jsstring" where
  "truncated textToProcess =
     (if length textToProcess > 28000 then take 28000 textToProcess else textToProcess)"

definition prompt :: "jsstring \<Rightarrow> jsstring" where
  "prompt textToProcess =
     js ''From the following job posting content, extract these details: company name, job title/role, primary location (city, state if available, or ''
     @ [0x22] @ js ''Remote'' @ [0x22]
     @ js ''), and a concise 2-3 sentence summary of key responsibilities or technologies.''
     @ [0xA] @ js ''Provide the output as a valid JSON object with keys: ''
     @ [0x22] @ js ''companyName'' @ [0x22] @ js '', '' @ [0x22] @ js ''role'' @ [0x22]
     @ js '', '' @ [0x22] @ js ''location'' @ [0x22] @ js '', and '' @ [0x22] @ js ''summary''
     @ [0x22] @ js ''.'' @ [0xA]
     @ js ''If a detail is not found, use an empty string '' @ [0x22, 0x22]
     @ js '' or null for its value.'' @ [0xA]
     @ js ''Job Posting Content: '' @ [0x22, 0x22, 0x22] @ textToProcess @ [0x22, 0x22, 0x22]"

definition apiUrl :: jsstring where
  "apiUrl = js ''https://generativelanguage.googleapis.com/v1beta/models/gemini-2.0-flash:generateContent?key=''"

text \<open>
  Line 313, the value of
  \<open>result.candidates && result.candidates[0]?.content?.parts?.[0]?.text\<close>;
  it throws when \<open>result\<close> is null. Line 314 reads the same value again.
\<close>

definition envelope_text :: "jsstring \<Rightarrow> jsval \<Rightarrow> jsstring + jsval" where
  "envelope_text tmsg result =
     (case get_prop tmsg result ''candidates'' of
        Inl e \<Rightarrow> Inl e
      | Inr candidates \<Rightarrow>
          Inr (if truthy candidates
               then opt_prop (opt_index0 (opt_prop (opt_prop (opt_index0 candidates) ''content'') ''parts'')) ''text''
               else candidates))"

text \<open>
  Lines 323 to 334. Reading \<open>companyName\<close> of null throws; \<open>jobPostUrl\<close> is the
  URL field as the handler saw it.
\<close>

definition newJobData :: "world \<Rightarrow> jsstring \<Rightarrow> jsval \<Rightarrow> jsstring + job_data" where
  "newJobData w url extractedData =
     (if extractedData = JNull \<or> extractedData = JUndefined then Inl (typeError w)
      else Inr \<lparr>
        companyName = js_or (opt_prop extractedData ''companyName'') (JStr []),
        role = js_or (opt_prop extractedData ''role'') (JStr []),
        location = js_or (opt_prop extractedData ''location'') (JStr []),
        job_notes = js_or (opt_prop extractedData ''summary'') (JStr []),
        dateApplied = split_T_0 (toISOString (now w)),
        status = JobStatus_SAVED,
        link = (if trim url \<noteq> [] then trim url else []),
        platformPosted = [],
        referralOptions = [],
        personPosted = [] \<rparr>)"

text \<open>
  \<open>JSON.parse(v)\<close> for a value that need not be a string: the value is converted to a
  string first, and a failed conversion throws like a failed parse.
\<close>

definition JSON_parse_value :: "world \<Rightarrow> jsval \<Rightarrow> jsstring + jsval" where
  "JSON_parse_value w v =
     (case to_string (toPrimitiveError w) v of
        Inl e \<Rightarrow> Inl e
      | Inr t \<Rightarrow> JSON_parse w t)"

text \<open>
  Lines 300 to 344, the body of the second \<open>try\<close>: \<open>Inl\<close> is the message of what is
  thrown, \<open>Inr None\<close> the \<open>else\<close> branch of line 341, \<open>Inr (Some d)\<close> the draft.
\<close>

definition extraction :: "world \<Rightarrow> jsstring \<Rightarrow> jsstring \<Rightarrow> jsstring + job_data option" where
  "extraction w url textToProcess =
     (case fetch w (Post apiUrl (prompt textToProcess)) of
        Rejected e \<Rightarrow> Inl e
      | Responded aiResponse \<Rightarrow>
          if \<not> ok aiResponse then
            (case response_json w aiResponse of
               Inl e \<Rightarrow> Inl e
             | Inr errorData \<Rightarrow>
                 (case to_string (toPrimitiveError w)
                         (js_or (opt_prop (opt_prop errorData ''error'') ''message'')
                                (JStr (statusText aiResponse))) of
                    Inl e \<Rightarrow> Inl e
                  | Inr message \<Rightarrow>
                      Inl (js ''AI API request failed: '' @ message
                           @ js '' (Status: '' @ digits (http_status aiResponse) @ js '')'')))
          else
            (case response_json w aiResponse of
               Inl e \<Rightarrow> Inl e
             | Inr result \<Rightarrow>
                 (case envelope_text (typeError w) result of
                    Inl e \<Rightarrow> Inl e
                  | Inr extractedJsonString \<Rightarrow>
                      if truthy extractedJsonString then
                        (case JSON_parse_value w extractedJsonString of
                           Inl parseError \<Rightarrow>
                             Inl (js ''AI returned invalid JSON. Please try again or check the extracted text if it was from a URL.'')
                         | Inr extractedData \<Rightarrow>
                             (case newJobData w url extractedData of
                                Inl e \<Rightarrow> Inl e
                              | Inr d \<Rightarrow> Inr (Some d)))
                      else Inr None)))"

text \<open>
  The state after a run that ends in an error message, and after one that produces a
  draft. The handler starts with \<open>setIsExtracting(true)\<close> and
  \<open>setExtractionError('')\<close> and always ends with \<open>setIsExtracting(false)\<close>.
\<close>

definition failed :: "app_state \<Rightarrow> jsstring \<Rightarrow> app_state" where
  "failed s msg = s\<lparr>isExtracting := False, extractionError := msg\<rparr>"

definition succeeded :: "app_state \<Rightarrow> job_data \<Rightarrow> app_state" where
  "succeeded s d =
     s\<lparr>isExtracting := False, extractionError := [], currentJob := Some d,
       showExtractionModal := False, showForm := True,
       jobDescriptionText := [], jobPostUrl := []\<rparr>"

text \<open>Lines 270 to 350: truncation, the request and the three ways it ends.\<close>

definition submit :: "world \<Rightarrow> app_state \<Rightarrow> jsstring \<Rightarrow> app_state \<times> request list" where
  "submit w s textToProcess =
     ((case extraction w (jobPostUrl s) (truncated textToProcess) of
         Inl e \<Rightarrow> failed s (js ''AI Extraction Error: '' @ e @ js ''.'')
       | Inr None \<Rightarrow> failed s (js ''Could not extract details: AI response format was unexpected.'')
       | Inr (Some d) \<Rightarrow> succeeded s d),
      [Post apiUrl (prompt (truncated textToProcess))])"

text \<open>
  Lines 224 to 268, which either leave \<open>textToProcess\<close> (\<open>Inr\<close>) or set the error
  message and return (\<open>Inl\<close>).
\<close>

definition gather_text :: "world \<Rightarrow> app_state \<Rightarrow> (jsstring + jsstring) \<times> request list" where
  "gather_text w s =
     (if trim (jobPostUrl s) \<noteq> [] then
        (case url_path w (jobPostUrl s) of
           (Inl e, reqs) \<Rightarrow>
             (Inl (js ''Error processing URL: '' @ e
                   @ js ''. Try pasting text or check the URL/proxy.''), reqs)
         | (Inr textToProcess, reqs) \<Rightarrow> (Inr textToProcess, reqs))
      else if trim (jobDescriptionText s) \<noteq> [] then
        (Inr (trim (jobDescriptionText s)), [])
      else
        (Inl (js ''Please provide a Job Posting URL or paste the Job Description text.''), []))"

definition handleExtractDetails :: "world \<Rightarrow> app_state \<Rightarrow> app_state \<times> request list" where
  "handleExtractDetails w s =
     (case gather_text w s of
        (Inl msg, reqs) \<Rightarrow> (failed s msg, reqs)
      | (Inr textToProcess, reqs) \<Rightarrow>
          (case submit w s textToProcess of (s', reqs') \<Rightarrow> (s', reqs @ reqs')))"

section \<open>The proxy server (server.js)\<close>

text \<open>
  The handler of \<open>GET /proxy\<close>. \<open>urlToFetch\<close> is \<open>req.query.url\<close>: undefined when
  the parameter is missing, a string, or an array or object when the query string
  nests. The reply is the status code and either the text sent or the JSON sent; the
  second component lists the upstream fetches. Line 26 logs the URL through a template
  literal before the \<open>try\<close>: when the conversion to a string throws (message
  \<open>cmsg\<close>), the handler's promise rejects, nothing is fetched and no reply is sent
  (\<open>None\<close>).
\<close>

datatype reply_body = Sent jsstring | SentJson jsval

record reply =
  code :: nat
  payload :: reply_body

definition proxy :: "jsstring \<Rightarrow> (jsval \<Rightarrow> fetch_outcome) \<Rightarrow> jsval \<Rightarrow> reply option \<times> jsval list" where
  "proxy cmsg node_fetch urlToFetch =
     (if \<not> truthy urlToFetch then
        (Some \<lparr>code = 400,
          payload = SentJson (JObj [(js ''error'',
            JStr (js ''A '' @ [0x22] @ js ''url'' @ [0x22] @ js '' query parameter is required.''))])\<rparr>,
         [])
      else
        (case to_string cmsg urlToFetch of
           Inl e \<Rightarrow> (None, [])
         | Inr logged \<Rightarrow>
             (Some (case (case node_fetch urlToFetch of
                      Rejected e \<Rightarrow> Inl e
                    | Responded r \<Rightarrow>
                        if \<not> ok r then
                          Inl (js ''Failed to fetch: '' @ digits (http_status r) @ js '' '' @ statusText r)
                        else body_read r) of
                Inl message \<Rightarrow>
                  \<lparr>code = 500,
                   payload = SentJson (JObj [(js ''error'', JStr (js ''Failed to fetch the provided URL.'')),
                                             (js ''details'', JStr message)])\<rparr>
              | Inr htmlContent \<Rightarrow> \<lparr>code = 200, payload = Sent htmlContent\<rparr>),
              [urlToFetch])))"

section \<open>The specification's words\<close>

text \<open>
  The NormalizedText invariant as the specification words it: every run of whitespace
  is a single space, there is no leading or trailing whitespace, and the length is at
  most 28,000.
\<close>

fun no_ws_run :: "jsstring \<Rightarrow> bool" where
  "no_ws_run [] = True"
| "no_ws_run [c] = True"
| "no_ws_run (c # d # cs) = (\<not> (is_ws c \<and> is_ws d) \<and> no_ws_run (d # cs))"

definition NormalizedText :: "jsstring \<Rightarrow> bool" where
  "NormalizedText t \<longleftrightarrow>
     no_ws_run t \<and> list_all (\<lambda>c. \<not> is_ws c \<or> c = 0x20) t
     \<and> (t = [] \<or> (\<not> is_ws (hd t) \<and> \<not> is_ws (last t)))
     \<and> length t \<le> 28000"

text \<open>
  Today's local date: the calendar date of the local time, which is the time value
  shifted by the offset of the time zone (in minutes east of UTC).
\<close>

definition local_date :: "int \<Rightarrow> int \<Rightarrow> jsstring" where
  "local_date t tz_minutes = date_text (t + tz_minutes * 60000)"

text \<open>
  Content selection as the specification words it: the landmark's text, unless there
  is no landmark or its text is empty or shorter than 50 characters.
\<close>

definition selectPrimaryContent :: "parsed_doc \<Rightarrow> jsstring option" where
  "selectPrimaryContent d =
     (case mainContentElement d of
        None \<Rightarrow> body d
      | Some t \<Rightarrow> if t = [] \<or> length t < 50 then body d else Some t)"

section \<open>Concrete runs\<close>

text \<open>
  Worlds and forms for the scenarios. \<open>world0\<close> has no network: every fetch
  rejects. Its \<open>encodeURIComponent\<close> is the identity, which is what the browser's
  does on the URLs used below (letters only), and its clock stands at
  2024-01-01T02:00:00Z.
\<close>

definition world0 :: world where
  "world0 = \<lparr>
     REACT_APP_BACKEND_URL = None,
     encodeURIComponent = (\<lambda>u. Inr u),
     fetch = (\<lambda>r. Rejected (js ''Failed to fetch'')),
     parseFromString = (\<lambda>h. \<lparr>mainContentElement = None, body = Some h\<rparr>),
     JSON_parse = (\<lambda>t. Inl (js ''Unexpected token'')),
     typeError = js ''Cannot read properties of null'',
     toPrimitiveError = js ''Cannot convert object to primitive value'',
     now = 1704074400000 \<rparr>"

definition form :: "jsstring \<Rightarrow> jsstring \<Rightarrow> app_state" where
  "form url pasted = \<lparr>
     jobPostUrl = url, jobDescriptionText = pasted, isExtracting = False,
     extractionError = [], currentJob = None, showExtractionModal = True,
     showForm = False \<rparr>"

definition ok_response :: "jsstring \<Rightarrow> response" where
  "ok_response b = \<lparr>http_status = 200, statusText = js ''OK'', body_read = Inr b\<rparr>"

text \<open>The response envelope of the generation service around the text \<open>t\<close>.\<close>

definition envelope :: "jsval \<Rightarrow> jsval" where
  "envelope t =
     JObj [(js ''candidates'',
       JArr [JObj [(js ''content'', JObj [(js ''parts'', JArr [JObj [(js ''text'', t)]])])]])]"

text \<open>
  A world whose generation service answers 200 with a body that parses to
  \<open>result\<close>; every other text (the embedded extraction string) parses to \<open>parsed\<close>.
\<close>

definition ai_world :: "jsval \<Rightarrow> jsstring + jsval \<Rightarrow> world" where
  "ai_world result parsed = world0 \<lparr>
     fetch := (\<lambda>r. case r of
                 Get u \<Rightarrow> Rejected (js ''Failed to fetch'')
               | Post u p \<Rightarrow> Responded (ok_response (js ''response''))),
     JSON_parse := (\<lambda>t. if t = js ''response'' then Inr result else parsed) \<rparr>"

text \<open>
  A world whose proxy answers with \<open>r\<close>, whose parser reads the document \<open>d\<close> and
  whose \<open>JSON.parse\<close> gives \<open>parsed\<close>; the generation service is unreachable.
\<close>

definition proxy_world :: "response \<Rightarrow> parsed_doc \<Rightarrow> jsstring + jsval \<Rightarrow> world" where
  "proxy_world r d parsed = world0 \<lparr>
     fetch := (\<lambda>q. case q of
                 Get u \<Rightarrow> Responded r
               | Post u p \<Rightarrow> Rejected (js ''Failed to fetch'')),
     parseFromString := (\<lambda>h. d),
     JSON_parse := (\<lambda>t. parsed) \<rparr>"

text \<open>Scenario A: the pasted text and the extraction result.\<close>

definition acme_text :: jsstring where
  "acme_text = js ''Senior Engineer at Acme Corp, Remote. Build distributed systems.''"

definition acme_fields :: jsval where
  "acme_fields = JObj [
     (js ''companyName'', JStr (js ''Acme Corp'')),
     (js ''role'', JStr (js ''Senior Engineer'')),
     (js ''location'', JStr (js ''Remote'')),
     (js ''summary'', JStr (js ''Build distributed systems.''))]"

definition scenario_A :: world where
  "scenario_A = ai_world (envelope (JStr (js ''extracted''))) (Inr acme_fields)"

definition acme_draft :: job_data where
  "acme_draft = \<lparr>
     companyName = JStr (js ''Acme Corp''),
     role = JStr (js ''Senior Engineer''),
     location = JStr (js ''Remote''),
     job_notes = JStr (js ''Build distributed systems.''),
     dateApplied = js ''2024-01-01'',
     status = js ''Saved (Not Applied)'',
     link = [],
     platformPosted = [],
     referralOptions = [],
     personPosted = [] \<rparr>"

text \<open>Scenario B: the proxy answers 404 with its JSON error body.\<close>

definition not_found :: response where
  "not_found = \<lparr>http_status = 404, statusText = js ''Not Found'',
                 body_read = Inr (js ''error body'')\<rparr>"

definition proxy_error_body :: jsval where
  "proxy_error_body = JObj [
     (js ''error'', JStr (js ''Failed to fetch the provided URL.'')),
     (js ''details'', JStr (js ''Failed to fetch: 404 Not Found''))]"

definition no_doc :: parsed_doc where
  "no_doc = \<lparr>mainContentElement = None, body = Some []\<rparr>"

definition scenario_B :: world where
  "scenario_B = proxy_world not_found no_doc (Inr proxy_error_body)"

text \<open>Scenario C: the page has only whitespace.\<close>

definition scenario_C :: world where
  "scenario_C = proxy_world (ok_response (js ''page''))
     \<lparr>mainContentElement = None, body = Some (js ''   '')\<rparr> (Inl (js ''Unexpected token''))"


text \<open>A page whose body text has runs of spaces, and a landmark that holds only a teaser.\<close>

definition spaced_page :: world where
  "spaced_page = proxy_world (ok_response (js ''page''))
     \<lparr>mainContentElement = None, body = Some (js ''  Senior   Engineer  '')\<rparr>
     (Inl (js ''Unexpected token''))"

definition newline_page :: world where
  "newline_page = proxy_world (ok_response (js ''page''))
     \<lparr>mainContentElement = None, body = Some (js ''Senior'' @ [0xA] @ js ''Engineer'')\<rparr>
     (Inl (js ''Unexpected token''))"

definition teaser_doc :: parsed_doc where
  "teaser_doc = \<lparr>
     mainContentElement = Some (js ''                         Apply now                         ''),
     body = Some (js ''Senior Engineer at Acme Corp, Remote. Build distributed systems.'')\<rparr>"

text \<open>An extraction result whose company name is the number 42.\<close>

definition number_fields :: jsval where
  "number_fields = JObj [
     (js ''companyName'', JNum (js ''42'')),
     (js ''role'', JStr (js ''Senior Engineer''))]"

definition number_world :: world where
  "number_world = ai_world (envelope (JStr (js ''extracted''))) (Inr number_fields)"

text \<open>
  A proxy error body whose \<open>details\<close> is an object with a \<open>toString\<close> property,
  a generation service that answers 200 with a page instead of JSON, and one that
  answers 200 with the JSON text \<open>null\<close>.
\<close>

definition unprintable_details :: jsval where
  "unprintable_details = JObj [(js ''details'', JObj [(js ''toString'', JNum (js ''1''))])]"

definition unprintable_world :: world where
  "unprintable_world = proxy_world not_found no_doc (Inr unprintable_details)"



section \<open>Facts about trimming and whitespace runs\<close>

lemma rev_dropWhile_rev: "rev (dropWhile P (rev xs)) = take (length xs - length (takeWhile P (rev xs))) xs"
proof -
  define n where "n = length (takeWhile P (rev xs))"
  have "dropWhile P (rev xs) = drop n (rev xs)" by (simp add: n_def dropWhile_eq_drop)
  then have "rev (dropWhile P (rev xs)) = rev (drop n (rev xs))" by simp
  also have "\<dots> = take (length xs - n) xs" by (simp add: rev_drop)
  finally show ?thesis by (simp add: n_def)
qed

lemma trim_as_take: "\<exists>i. trim s = take i (dropWhile is_ws s)"
  unfolding trim_def by (rule exI, rule rev_dropWhile_rev)

lemma trim_last: "trim s \<noteq> [] \<Longrightarrow> \<not> is_ws (last (trim s))"
proof -
  assume a: "trim s \<noteq> []"
  let ?r = "dropWhile is_ws (rev (dropWhile is_ws s))"
  from a have r: "?r \<noteq> []" by (simp add: trim_def)
  have "last (trim s) = hd ?r" using r by (simp add: trim_def last_rev)
  moreover have "\<not> is_ws (hd ?r)" using r by (rule hd_dropWhile)
  ultimately show ?thesis by simp
qed

lemma trim_hd: "trim s \<noteq> [] \<Longrightarrow> \<not> is_ws (hd (trim s))"
proof -
  assume a: "trim s \<noteq> []"
  obtain i where i: "trim s = take i (dropWhile is_ws s)" using trim_as_take by blast
  with a have d: "dropWhile is_ws s \<noteq> []" and i0: "i \<noteq> 0" by auto
  from i i0 have "hd (trim s) = hd (dropWhile is_ws s)" by simp
  moreover have "\<not> is_ws (hd (dropWhile is_ws s))" using d by (rule hd_dropWhile)
  ultimately show ?thesis by simp
qed

lemma trim_id: "s \<noteq> [] \<Longrightarrow> \<not> is_ws (hd s) \<Longrightarrow> \<not> is_ws (last s) \<Longrightarrow> trim s = s"
proof -
  assume a: "s \<noteq> []" "\<not> is_ws (hd s)" "\<not> is_ws (last s)"
  then have 1: "dropWhile is_ws s = s" by (cases s) auto
  from a have 2: "dropWhile is_ws (rev s) = rev s" by (cases "rev s") (auto simp: last_rev hd_rev)
  show ?thesis by (simp add: trim_def 1 2)
qed

lemma trim_trim: "trim (trim s) = trim s"
proof (cases "trim s = []")
  case True
  have "trim [] = []" by (simp add: trim_def)
  with True show ?thesis by simp
next
  case False then show ?thesis by (simp add: trim_id trim_hd trim_last)
qed

lemma trim_prefix_suffix: "\<exists>i j. trim s = take i (drop j s)"
  using trim_as_take [of s] by (auto simp: dropWhile_eq_drop)

lemma no_ws_run_tl: "no_ws_run (c # cs) \<Longrightarrow> no_ws_run cs"
  by (cases cs) auto

lemma no_ws_run_drop: "no_ws_run s \<Longrightarrow> no_ws_run (drop n s)"
proof (induction n arbitrary: s)
  case 0 then show ?case by simp
next
  case (Suc n) then show ?case by (cases s) (auto dest: no_ws_run_tl)
qed

lemma no_ws_run_take: "no_ws_run s \<Longrightarrow> no_ws_run (take n s)"
proof (induction s arbitrary: n rule: no_ws_run.induct)
  case 1 then show ?case by simp
next
  case (2 c) then show ?case by (cases n) auto
next
  case (3 c d cs)
  show ?case
  proof (cases n)
    case 0 then show ?thesis by simp
  next
    case (Suc m)
    note n = this
    show ?thesis
    proof (cases m)
      case 0 with n show ?thesis by simp
    next
      case (Suc k)
      from 3 have "no_ws_run (take m (d # cs))" by simp
      with 3(2) n Suc show ?thesis by simp
    qed
  qed
qed

lemma no_ws_run_trim: "no_ws_run s \<Longrightarrow> no_ws_run (trim s)"
proof -
  assume a: "no_ws_run s"
  obtain i j where "trim s = take i (drop j s)" using trim_prefix_suffix by blast
  moreover have "no_ws_run (take i (drop j s))" using a by (intro no_ws_run_take no_ws_run_drop)
  ultimately show ?thesis by simp
qed

lemma replace_Nil_iff: "replace_ws_runs s = [] \<longleftrightarrow> s = []"
  by (induction s rule: replace_ws_runs.induct) auto

lemma replace_hd: "s \<noteq> [] \<Longrightarrow> \<not> is_ws (hd s) \<Longrightarrow> replace_ws_runs s \<noteq> [] \<and> hd (replace_ws_runs s) = hd s"
  by (induction s rule: replace_ws_runs.induct) auto

lemma no_ws_run_Cons: "no_ws_run (c # cs) \<longleftrightarrow> (cs = [] \<or> (\<not> (is_ws c \<and> is_ws (hd cs)) \<and> no_ws_run cs))"
  by (cases cs) auto

lemma replace_no_ws_run: "no_ws_run (replace_ws_runs s)"
proof (induction s rule: replace_ws_runs.induct)
  case 1 then show ?case by simp
next
  case (2 c) then show ?case by simp
next
  case (3 c d cs)
  show ?case
  proof (cases "is_ws c \<and> is_ws d")
    case True
    let ?r = "dropWhile is_ws cs"
    have "replace_ws_runs ?r = [] \<or> \<not> is_ws (hd (replace_ws_runs ?r))"
    proof (cases "?r = []")
      case True
      then have "replace_ws_runs ?r = []" by (simp only: replace_ws_runs.simps)
      then show ?thesis by blast
    next
      case False
      then have "\<not> is_ws (hd ?r)" by (rule hd_dropWhile)
      with False show ?thesis using replace_hd [of ?r] by simp
    qed
    with True 3 show ?thesis by (auto simp: no_ws_run_Cons)
  next
    case False
    then have "\<not> is_ws c \<or> \<not> is_ws (hd (replace_ws_runs (d # cs)))"
      using replace_hd [of "d # cs"] by auto
    with False 3 show ?thesis by (auto simp: no_ws_run_Cons)
  qed
qed

section \<open>Facts about the date text\<close>

lemma digits_small: "n < 10 \<Longrightarrow> digits n = [of_nat (48 + n)]"
  by (simp add: digits.simps)

lemma digits_big: "\<not> n < 10 \<Longrightarrow> digits n = digits (n div 10) @ [of_nat (48 + n mod 10)]"
  by (subst digits.simps) simp

lemma digit_not_T: "n < 10 \<Longrightarrow> (of_nat (48 + n) :: 16 word) \<noteq> of_char CHR ''T''"
proof -
  assume "n < 10"
  then consider "n = 0" | "n = 1" | "n = 2" | "n = 3" | "n = 4" | "n = 5" | "n = 6"
    | "n = 7" | "n = 8" | "n = 9" by atomize_elim arith
  then show ?thesis by cases simp_all
qed

lemma digits_no_T: "of_char CHR ''T'' \<notin> set (digits n)"
proof (induction n rule: digits.induct)
  case (1 n)
  show ?case
  proof (cases "n < 10")
    case True then show ?thesis using digit_not_T [of n] by (simp add: digits_small)
  next
    case False
    with 1 show ?thesis using digit_not_T [of "n mod 10"] by (simp add: digits_big)
  qed
qed

lemma pad_no_T: "of_char CHR ''T'' \<notin> set (pad k n)"
  using digits_no_T [of n] by (auto simp: pad_def)

lemma date_text_no_T: "of_char CHR ''T'' \<notin> set (date_text t)"
  using pad_no_T by (auto simp: date_text_def year_text_def js_def split: prod.splits)

lemma split_T_0_toISOString: "split_T_0 (toISOString t) = date_text t"
proof -
  have "takeWhile (\<lambda>c. c \<noteq> of_char CHR ''T'') (date_text t @ of_char CHR ''T'' # r) = date_text t" for r
    using date_text_no_T [of t] by (subst takeWhile_append2) auto
  then show ?thesis by (simp add: split_T_0_def toISOString_def Let_def js_def)
qed

section \<open>Facts about the handler\<close>

lemma handle_failed:
  "gather_text w s = (Inl m, reqs) \<Longrightarrow> handleExtractDetails w s = (failed s m, reqs)"
  by (simp add: handleExtractDetails_def)

lemma handle_submit:
  "gather_text w s = (Inr t, reqs) \<Longrightarrow>
   handleExtractDetails w s = (fst (submit w s t), reqs @ [Post apiUrl (prompt (truncated t))])"
  by (simp add: handleExtractDetails_def submit_def)

lemma gather_url:
  "trim (jobPostUrl s) \<noteq> [] \<Longrightarrow>
   gather_text w s =
     (case url_path w (jobPostUrl s) of
        (Inl e, reqs) \<Rightarrow>
          (Inl (js ''Error processing URL: '' @ e @ js ''. Try pasting text or check the URL/proxy.''), reqs)
      | (Inr t, reqs) \<Rightarrow> (Inr t, reqs))"
  by (simp add: gather_text_def)

lemma gather_pasted:
  "trim (jobPostUrl s) = [] \<Longrightarrow> trim (jobDescriptionText s) \<noteq> [] \<Longrightarrow>
   gather_text w s = (Inr (trim (jobDescriptionText s)), [])"
  by (simp add: gather_text_def)

lemma gather_none:
  "trim (jobPostUrl s) = [] \<Longrightarrow> trim (jobDescriptionText s) = [] \<Longrightarrow>
   gather_text w s =
     (Inl (js ''Please provide a Job Posting URL or paste the Job Description text.''), [])"
  by (simp add: gather_text_def)

lemma gather_ignores_pasted:
  "trim (jobPostUrl s) \<noteq> [] \<Longrightarrow> gather_text w (s\<lparr>jobDescriptionText := p\<rparr>) = gather_text w s"
  by (simp add: gather_text_def)

lemma submit_ignores_pasted:
  "(fst (submit w (s\<lparr>jobDescriptionText := p\<rparr>) t))\<lparr>jobDescriptionText := q\<rparr>
     = (fst (submit w s t))\<lparr>jobDescriptionText := q\<rparr>"
  by (simp add: submit_def failed_def succeeded_def split: sum.splits option.splits)

lemma url_path_requests:
  "encodeURIComponent w url = Inr enc \<Longrightarrow> snd (url_path w url) = [proxy_request w enc]"
  by (simp add: url_path_def)

lemma trim_replicate: "0 < n \<Longrightarrow> \<not> is_ws c \<Longrightarrow> trim (replicate n c) = replicate n c"
  by (rule trim_id) simp_all

section \<open>Source precedence\<close>

text \<open>
  C1. When the URL field is not blank after trimming, the run does not depend on the
  pasted text: the requests are the same whatever the pasted text is, and so is the
  final state apart from the pasted-text field itself; the first request is the proxy
  fetch. When the URL is blank and the pasted text is not, the only request is the
  extraction call, carrying the trimmed pasted text (cut at the cap). When both are
  blank, the run ends with the message asking for an input and sends no request.
\<close>

theorem source_precedence:
  "(trim (jobPostUrl s) \<noteq> [] \<longrightarrow>
      snd (handleExtractDetails w (s\<lparr>jobDescriptionText := p\<rparr>)) = snd (handleExtractDetails w s)
      \<and> (fst (handleExtractDetails w (s\<lparr>jobDescriptionText := p\<rparr>)))\<lparr>jobDescriptionText := q\<rparr>
          = (fst (handleExtractDetails w s))\<lparr>jobDescriptionText := q\<rparr>)
   \<and> (trim (jobPostUrl s) \<noteq> [] \<and> encodeURIComponent w (jobPostUrl s) = Inr enc \<longrightarrow>
      take 1 (snd (handleExtractDetails w s)) = [proxy_request w enc])
   \<and> (trim (jobPostUrl s) = [] \<and> trim (jobDescriptionText s) \<noteq> [] \<longrightarrow>
      snd (handleExtractDetails w s)
        = [Post apiUrl (prompt (truncated (trim (jobDescriptionText s))))])
   \<and> (trim (jobPostUrl s) = [] \<and> trim (jobDescriptionText s) = [] \<longrightarrow>
      handleExtractDetails w s
        = (failed s (js ''Please provide a Job Posting URL or paste the Job Description text.''), []))"
proof (intro conjI impI)
  assume u: "trim (jobPostUrl s) \<noteq> []"
  let ?s' = "s\<lparr>jobDescriptionText := p\<rparr>"
  have g: "gather_text w ?s' = gather_text w s" using u by (rule gather_ignores_pasted)
  show "snd (handleExtractDetails w ?s') = snd (handleExtractDetails w s)"
    by (cases "gather_text w s")
       (auto simp: handleExtractDetails_def g submit_def split: sum.splits)
  show "(fst (handleExtractDetails w ?s'))\<lparr>jobDescriptionText := q\<rparr>
          = (fst (handleExtractDetails w s))\<lparr>jobDescriptionText := q\<rparr>"
  proof (cases "gather_text w s")
    case (Pair a reqs)
    show ?thesis
    proof (cases a)
      case (Inl m)
      with Pair g show ?thesis by (simp add: handle_failed failed_def)
    next
      case (Inr t)
      with Pair g show ?thesis by (simp add: handle_submit submit_ignores_pasted)
    qed
  qed
next
  assume a: "trim (jobPostUrl s) \<noteq> [] \<and> encodeURIComponent w (jobPostUrl s) = Inr enc"
  then have r: "snd (url_path w (jobPostUrl s)) = [proxy_request w enc]"
    by (simp add: url_path_requests)
  show "take 1 (snd (handleExtractDetails w s)) = [proxy_request w enc]"
  proof (cases "url_path w (jobPostUrl s)")
    case (Pair a' reqs)
    with r have reqs: "reqs = [proxy_request w enc]" by simp
    show ?thesis
    proof (cases a')
      case (Inl m)
      with Pair a reqs show ?thesis by (simp add: handleExtractDetails_def gather_url)
    next
      case (Inr t)
      with Pair a reqs show ?thesis by (simp add: handleExtractDetails_def gather_url submit_def)
    qed
  qed
next
  assume "trim (jobPostUrl s) = [] \<and> trim (jobDescriptionText s) \<noteq> []"
  then show "snd (handleExtractDetails w s)
        = [Post apiUrl (prompt (truncated (trim (jobDescriptionText s))))]"
    by (simp add: gather_pasted handle_submit)
next
  assume "trim (jobPostUrl s) = [] \<and> trim (jobDescriptionText s) = []"
  then show "handleExtractDetails w s
        = (failed s (js ''Please provide a Job Posting URL or paste the Job Description text.''), [])"
    by (simp add: gather_none handle_failed)
qed

theorem source_precedence_witness:
  "snd (handleExtractDetails world0 (form (js ''acme'') (js ''pasted text'')))
     = snd (handleExtractDetails world0 (form (js ''acme'') []))
   \<and> take 1 (snd (handleExtractDetails world0 (form (js ''acme'') (js ''pasted text''))))
     = [Get (js ''http://localhost:3001/proxy?url=acme'')]
   \<and> snd (handleExtractDetails world0 (form [] (js '' pasted text '')))
     = [Post apiUrl (prompt (js ''pasted text''))]
   \<and> handleExtractDetails world0 (form (js ''  '') (js '' ''))
     = (failed (form (js ''  '') (js '' ''))
          (js ''Please provide a Job Posting URL or paste the Job Description text.''), [])"
proof -
  have 1: "trim (js ''acme'') = js ''acme''" "trim (js ''pasted text'') = js ''pasted text''"
    "trim (js '' pasted text '') = js ''pasted text''" "trim (js ''  '') = []" "trim (js '' '') = []"
    "trim [] = []"
    by (simp_all add: trim_def js_def is_ws_def)
  have 2: "js ''acme'' \<noteq> []" "js ''pasted text'' \<noteq> []" by (simp_all add: js_def)
  have 3: "truncated (js ''pasted text'') = js ''pasted text''" by (simp add: truncated_def js_def)
  have 4: "js ''http://localhost:3001'' @ js ''/proxy?url='' @ js ''acme'' = js ''http://localhost:3001/proxy?url=acme''"
    by (simp add: js_def)
  show ?thesis
    using source_precedence [of "form (js ''acme'') []" world0 "js ''pasted text''" "[]" "js ''acme''"]
      source_precedence [of "form (js ''acme'') (js ''pasted text'')" world0 "[]" "[]" "js ''acme''"]
      source_precedence [of "form [] (js '' pasted text '')" world0 "[]" "[]" "[]"]
      source_precedence [of "form (js ''  '') (js '' '')" world0 "[]" "[]" "[]"]
    by (simp add: form_def world0_def 1 2 3 4 proxy_request_def backendBaseUrl_def)
qed

section \<open>Truncation\<close>

text \<open>
  C2. In a run that reaches the extraction call with the text \<open>t\<close>, the text
  submitted is \<open>t\<close> when it has at most 28,000 characters and exactly its first
  28,000 characters otherwise; a text of 40,000 characters is submitted as its first
  28,000.
\<close>

theorem truncation:
  assumes "gather_text w s = (Inr t, reqs)"
  shows "snd (handleExtractDetails w s)
           = reqs @ [Post apiUrl (prompt (if 28000 < length t then take 28000 t else t))]
         \<and> (28000 < length t \<longrightarrow> length (truncated t) = 28000)
         \<and> (length t = 40000 \<longrightarrow> truncated t = take 28000 t)
         \<and> (length t \<le> 28000 \<longrightarrow> truncated t = t)"
  using assms by (simp add: handle_submit truncated_def)

theorem truncation_witness:
  "gather_text world0 (form [] (replicate 40000 0x61))
     = (Inr (replicate 40000 0x61), [])
   \<and> snd (handleExtractDetails world0 (form [] (replicate 40000 0x61)))
     = [Post apiUrl (prompt (replicate 28000 0x61))]
   \<and> length (truncated (replicate 40000 0x61)) = 28000
   \<and> snd (handleExtractDetails world0 (form [] (js ''  Senior Engineer '')))
     = [Post apiUrl (prompt (js ''Senior Engineer''))]"
proof -
  have t': "trim (js ''  Senior Engineer '') = js ''Senior Engineer''" "js ''Senior Engineer'' \<noteq> []"
    "length (js ''Senior Engineer'') \<le> 28000"
    by (simp_all add: trim_def js_def is_ws_def)
  have e': "trim [] = []" by (simp add: trim_def)
  have g': "gather_text world0 (form [] (js ''  Senior Engineer '')) = (Inr (js ''Senior Engineer''), [])"
    by (rule trans [OF gather_pasted]) (simp_all add: form_def t' e')
  have short: "snd (handleExtractDetails world0 (form [] (js ''  Senior Engineer '')))
     = [Post apiUrl (prompt (js ''Senior Engineer''))]"
    using truncation [OF g'] t'(3) by simp
  have t: "trim (replicate 40000 0x61) = replicate 40000 0x61"
    by (rule trim_replicate) (simp_all add: is_ws_def)
  have e: "trim [] = []" by (simp add: trim_def)
  have g: "gather_text world0 (form [] (replicate 40000 0x61))
     = (Inr (replicate 40000 0x61), [])"
    by (rule trans [OF gather_pasted]) (simp_all add: form_def t e)
  show ?thesis using truncation [OF g] g short by simp
qed

section \<open>Facts about the URL path and the concrete runs\<close>

lemma url_path_rejected:
  "encodeURIComponent w url = Inr enc \<Longrightarrow> fetch w (proxy_request w enc) = Rejected e \<Longrightarrow>
   url_path w url = (Inl e, [proxy_request w enc])"
  by (simp add: url_path_def)

lemma url_path_status:
  "encodeURIComponent w url = Inr enc \<Longrightarrow> fetch w (proxy_request w enc) = Responded r \<Longrightarrow>
   \<not> ok r \<Longrightarrow>
   url_path w url =
     (case to_string (toPrimitiveError w) (errorDetails w r) of
        Inl e \<Rightarrow> Inl e
      | Inr details \<Rightarrow>
          Inl (js ''Failed to fetch URL via proxy: '' @ details
               @ js '' (Status: '' @ digits (http_status r) @ js '')''), [proxy_request w enc])"
  by (simp add: url_path_def)

lemma url_path_page:
  "encodeURIComponent w url = Inr enc \<Longrightarrow> fetch w (proxy_request w enc) = Responded r \<Longrightarrow>
   ok r \<Longrightarrow> body_read r = Inr htmlContent \<Longrightarrow>
   selected_text w (parseFromString w htmlContent) = Inr t \<Longrightarrow>
   url_path w url =
     (if trim (replace_ws_runs t) = []
      then Inl (js ''Could not extract meaningful text content from the URL after parsing.'')
      else Inr (trim (replace_ws_runs t)), [proxy_request w enc])"
  by (simp add: url_path_def trim_trim)





lemma extraction_parsed:
  "fetch w (Post apiUrl (prompt t)) = Responded r \<Longrightarrow> ok r \<Longrightarrow> response_json w r = Inr result \<Longrightarrow>
   envelope_text (typeError w) result = Inr v \<Longrightarrow> truthy v \<Longrightarrow>
   JSON_parse_value w v = Inr data \<Longrightarrow>
   extraction w url t = (case newJobData w url data of Inl e \<Rightarrow> Inl e | Inr d \<Rightarrow> Inr (Some d))"
  by (simp add: extraction_def)

lemma trim_examples:
  "trim (js ''acme'') = js ''acme''"
  "trim (js ''pasted text'') = js ''pasted text''"
  "trim [] = []"
  "trim acme_text = acme_text"
  by (simp_all add: trim_def js_def is_ws_def acme_text_def)

lemma digits_404: "digits 404 = js ''404''"
  by (simp add: digits_small digits_big js_def)

lemma gather_acme:
  "gather_text w (form [] acme_text) = (Inr acme_text, [])"
proof -
  have "acme_text \<noteq> []" by (simp add: acme_text_def js_def)
  then show ?thesis
    by (intro trans [OF gather_pasted]) (simp_all add: form_def trim_examples)
qed


lemma ai_world_fetch:
  "fetch (ai_world result parsed) (Post u p) = Responded (ok_response (js ''response''))"
  by (simp add: ai_world_def world0_def)

lemma ai_world_json:
  "response_json (ai_world result parsed) (ok_response (js ''response'')) = Inr result"
  by (simp add: response_json_def ai_world_def world0_def ok_response_def)

lemma ok_ok_response: "ok (ok_response b)"
  by (simp add: ok_def ok_response_def)

lemma envelope_text_envelope:
  "envelope_text tmsg (envelope v) = Inr v"
  by (simp add: envelope_text_def envelope_def get_prop_def)

section \<open>Failure of the proxy fetch\<close>

text \<open>
  C4, as the code has it. With a URL that is not blank, when the proxy fetch rejects
  (transport failure) or answers with a status outside 200 to 299, the run ends with
  the URL error message and the only request made is the proxy fetch: no extraction
  call, no draft, and the pasted text is left where it was, present or not. After a
  rejection the message carries the error of the fetch. After a status outside 200 to
  299 it carries the status and a detail whenever the detail converts to a string,
  as every string does; the detail is the \<open>details\<close> of the proxy's JSON error body
  when there is one, and the status text when the body does not parse. When the
  conversion throws, the message carries the error of the conversion.
\<close>

theorem proxy_failure_stops_run:
  assumes "trim (jobPostUrl s) \<noteq> []"
    and "encodeURIComponent w (jobPostUrl s) = Inr enc"
  shows "(fetch w (proxy_request w enc) = Rejected e \<longrightarrow>
            handleExtractDetails w s =
              (failed s (js ''Error processing URL: '' @ e
                         @ js ''. Try pasting text or check the URL/proxy.''),
               [proxy_request w enc]))
       \<and> (fetch w (proxy_request w enc) = Responded r
            \<and> (http_status r < 200 \<or> 299 < http_status r)
            \<and> to_string (toPrimitiveError w) (errorDetails w r) = Inr dtl \<longrightarrow>
            handleExtractDetails w s =
              (failed s (js ''Error processing URL: ''
                         @ (js ''Failed to fetch URL via proxy: '' @ dtl
                            @ js '' (Status: '' @ digits (http_status r) @ js '')'')
                         @ js ''. Try pasting text or check the URL/proxy.''),
               [proxy_request w enc]))
       \<and> (fetch w (proxy_request w enc) = Responded r
            \<and> (http_status r < 200 \<or> 299 < http_status r)
            \<and> to_string (toPrimitiveError w) (errorDetails w r) = Inl e \<longrightarrow>
            handleExtractDetails w s =
              (failed s (js ''Error processing URL: '' @ e
                         @ js ''. Try pasting text or check the URL/proxy.''),
               [proxy_request w enc]))
       \<and> (errorDetails w r = JStr d \<longrightarrow>
            to_string (toPrimitiveError w) (errorDetails w r) = Inr d)
       \<and> (response_json w r = Inl x \<longrightarrow> errorDetails w r = JStr (statusText r))
       \<and> (response_json w r = Inr (JObj ps) \<and> map_of ps (js ''details'') = Some (JStr d) \<and> d \<noteq> []
            \<longrightarrow> errorDetails w r = JStr d)
       \<and> currentJob (failed s m) = currentJob s
       \<and> jobDescriptionText (failed s m) = jobDescriptionText s"
proof (intro conjI impI)
  assume "fetch w (proxy_request w enc) = Rejected e"
  with assms show "handleExtractDetails w s =
      (failed s (js ''Error processing URL: '' @ e
                 @ js ''. Try pasting text or check the URL/proxy.''), [proxy_request w enc])"
    by (simp add: handle_failed gather_url url_path_rejected)
next
  assume a: "fetch w (proxy_request w enc) = Responded r
     \<and> (http_status r < 200 \<or> 299 < http_status r)
     \<and> to_string (toPrimitiveError w) (errorDetails w r) = Inr dtl"
  then have "\<not> ok r" by (auto simp: ok_def)
  with a assms show "handleExtractDetails w s =
      (failed s (js ''Error processing URL: ''
                 @ (js ''Failed to fetch URL via proxy: '' @ dtl
                    @ js '' (Status: '' @ digits (http_status r) @ js '')'')
                 @ js ''. Try pasting text or check the URL/proxy.''), [proxy_request w enc])"
    by (simp add: handle_failed gather_url url_path_status)
next
  assume a: "fetch w (proxy_request w enc) = Responded r
     \<and> (http_status r < 200 \<or> 299 < http_status r)
     \<and> to_string (toPrimitiveError w) (errorDetails w r) = Inl e"
  then have "\<not> ok r" by (auto simp: ok_def)
  with a assms show "handleExtractDetails w s =
      (failed s (js ''Error processing URL: '' @ e
                 @ js ''. Try pasting text or check the URL/proxy.''), [proxy_request w enc])"
    by (simp add: handle_failed gather_url url_path_status)
next
  assume "errorDetails w r = JStr d"
  then show "to_string (toPrimitiveError w) (errorDetails w r) = Inr d" by simp
next
  assume "response_json w r = Inl x"
  then show "errorDetails w r = JStr (statusText r)" by (simp add: errorDetails_def)
next
  assume "response_json w r = Inr (JObj ps) \<and> map_of ps (js ''details'') = Some (JStr d) \<and> d \<noteq> []"
  then show "errorDetails w r = JStr d"
    by (simp add: errorDetails_def get_prop_def js_or_def)
qed (simp_all add: failed_def)

theorem proxy_failure_stops_run_witness:
  "handleExtractDetails world0 (form (js ''acme'') (js ''pasted text''))
     = (failed (form (js ''acme'') (js ''pasted text''))
          (js ''Error processing URL: Failed to fetch. Try pasting text or check the URL/proxy.''),
        [Get (js ''http://localhost:3001/proxy?url=acme'')])
   \<and> handleExtractDetails scenario_B (form (js ''acme'') (js ''pasted text''))
     = (failed (form (js ''acme'') (js ''pasted text''))
          (js ''Error processing URL: Failed to fetch URL via proxy: Failed to fetch: 404 Not Found (Status: 404). Try pasting text or check the URL/proxy.''),
        [Get (js ''http://localhost:3001/proxy?url=acme'')])
   \<and> errorDetails (proxy_world not_found no_doc (Inl (js ''Unexpected token''))) not_found
     = JStr (js ''Not Found'')
   \<and> handleExtractDetails unprintable_world (form (js ''acme'') (js ''pasted text''))
     = (failed (form (js ''acme'') (js ''pasted text''))
          (js ''Error processing URL: Cannot convert object to primitive value. Try pasting text or check the URL/proxy.''),
        [Get (js ''http://localhost:3001/proxy?url=acme'')])"
proof -
  let ?s = "form (js ''acme'') (js ''pasted text'')"
  have u: "trim (jobPostUrl ?s) \<noteq> []" by (simp add: form_def trim_examples) (simp add: js_def)
  have q: "proxy_request world0 (js ''acme'') = Get (js ''http://localhost:3001/proxy?url=acme'')"
    "proxy_request scenario_B (js ''acme'') = Get (js ''http://localhost:3001/proxy?url=acme'')"
    "proxy_request unprintable_world (js ''acme'') = Get (js ''http://localhost:3001/proxy?url=acme'')"
    by (simp_all add: proxy_request_def backendBaseUrl_def world0_def scenario_B_def
        unprintable_world_def proxy_world_def js_def)
  have a: "handleExtractDetails world0 ?s
     = (failed ?s (js ''Error processing URL: '' @ js ''Failed to fetch''
                   @ js ''. Try pasting text or check the URL/proxy.''),
        [Get (js ''http://localhost:3001/proxy?url=acme'')])"
    using proxy_failure_stops_run [where s = ?s and w = world0 and enc = "js ''acme''"
        and e = "js ''Failed to fetch''", OF u]
    by (simp add: q) (simp add: world0_def form_def)
  have j: "response_json scenario_B not_found = Inr proxy_error_body"
    by (simp add: response_json_def scenario_B_def proxy_world_def world0_def not_found_def)
  have d: "errorDetails scenario_B not_found = JStr (js ''Failed to fetch: 404 Not Found'')"
    using proxy_failure_stops_run [where s = ?s and w = scenario_B and enc = "js ''acme''"
        and r = not_found and ps = "[(js ''error'', JStr (js ''Failed to fetch the provided URL.'')),
     (js ''details'', JStr (js ''Failed to fetch: 404 Not Found''))]"
        and d = "js ''Failed to fetch: 404 Not Found''", OF u]
    by (simp add: j proxy_error_body_def) (simp add: scenario_B_def proxy_world_def world0_def form_def js_def)
  have b: "handleExtractDetails scenario_B ?s
     = (failed ?s (js ''Error processing URL: ''
                  @ (js ''Failed to fetch URL via proxy: '' @ js ''Failed to fetch: 404 Not Found''
                     @ js '' (Status: '' @ js ''404'' @ js '')'')
                  @ js ''. Try pasting text or check the URL/proxy.''),
        [Get (js ''http://localhost:3001/proxy?url=acme'')])"
    using proxy_failure_stops_run [where s = ?s and w = scenario_B and enc = "js ''acme''"
        and r = not_found and dtl = "js ''Failed to fetch: 404 Not Found''", OF u]
    by (simp add: q d) (simp add: scenario_B_def proxy_world_def world0_def form_def not_found_def digits_404)
  have c: "errorDetails (proxy_world not_found no_doc (Inl (js ''Unexpected token''))) not_found
     = JStr (js ''Not Found'')"
    using proxy_failure_stops_run [where s = ?s
        and w = "proxy_world not_found no_doc (Inl (js ''Unexpected token''))"
        and enc = "js ''acme''" and r = not_found and x = "js ''Unexpected token''", OF u]
    by (simp add: response_json_def proxy_world_def world0_def not_found_def form_def)
  have t: "to_string (toPrimitiveError unprintable_world) (errorDetails unprintable_world not_found)
     = Inl (js ''Cannot convert object to primitive value'')"
    by (simp add: errorDetails_def response_json_def unprintable_world_def proxy_world_def world0_def
        not_found_def unprintable_details_def get_prop_def js_or_def)
  have e: "handleExtractDetails unprintable_world ?s
     = (failed ?s (js ''Error processing URL: '' @ js ''Cannot convert object to primitive value''
                   @ js ''. Try pasting text or check the URL/proxy.''),
        [Get (js ''http://localhost:3001/proxy?url=acme'')])"
    using proxy_failure_stops_run [where s = ?s and w = unprintable_world and enc = "js ''acme''"
        and r = not_found and e = "js ''Cannot convert object to primitive value''", OF u]
    by (simp add: q t) (simp add: unprintable_world_def proxy_world_def world0_def form_def not_found_def)
  from a b c e show ?thesis by (simp add: js_def)
qed

text \<open>
  The proxy answers 404 with a JSON body whose \<open>details\<close> is an object with a
  \<open>toString\<close> property: the message of the run names neither the status nor a detail
  of the body.
\<close>

theorem status_and_detail_lost:
  "fetch unprintable_world (Get (js ''http://localhost:3001/proxy?url=acme'')) = Responded not_found
   \<and> http_status not_found = 404
   \<and> response_json unprintable_world not_found = Inr unprintable_details
   \<and> extractionError (fst (handleExtractDetails unprintable_world (form (js ''acme'') [])))
     = js ''Error processing URL: Cannot convert object to primitive value. Try pasting text or check the URL/proxy.''"
proof -
  let ?s = "form (js ''acme'') []"
  have u: "trim (jobPostUrl ?s) \<noteq> []" by (simp add: form_def trim_examples) (simp add: js_def)
  have q: "proxy_request unprintable_world (js ''acme'') = Get (js ''http://localhost:3001/proxy?url=acme'')"
    by (simp add: proxy_request_def backendBaseUrl_def world0_def unprintable_world_def proxy_world_def js_def)
  have e: "encodeURIComponent unprintable_world (js ''acme'') = Inr (js ''acme'')"
    by (simp add: unprintable_world_def proxy_world_def world0_def)
  have f: "fetch unprintable_world (Get (js ''http://localhost:3001/proxy?url=acme'')) = Responded not_found"
    by (simp add: unprintable_world_def proxy_world_def world0_def)
  have n: "\<not> ok not_found" "http_status not_found = 404" by (simp_all add: ok_def not_found_def)
  have j: "response_json unprintable_world not_found = Inr unprintable_details"
    by (simp add: response_json_def unprintable_world_def proxy_world_def world0_def not_found_def)
  have t: "to_string (toPrimitiveError unprintable_world) (errorDetails unprintable_world not_found)
     = Inl (js ''Cannot convert object to primitive value'')"
    by (simp add: errorDetails_def j unprintable_details_def get_prop_def js_or_def)
       (simp add: unprintable_world_def proxy_world_def world0_def)
  have p: "url_path unprintable_world (js ''acme'')
     = (Inl (js ''Cannot convert object to primitive value''),
        [Get (js ''http://localhost:3001/proxy?url=acme'')])"
    using url_path_status [OF e, of not_found] f n(1) by (simp add: q t)
  have "jobPostUrl ?s = js ''acme''" by (simp add: form_def)
  with p u have g: "gather_text unprintable_world ?s
     = (Inl (js ''Error processing URL: '' @ js ''Cannot convert object to primitive value''
             @ js ''. Try pasting text or check the URL/proxy.''),
        [Get (js ''http://localhost:3001/proxy?url=acme'')])"
    by (simp add: gather_url)
  have "handleExtractDetails unprintable_world ?s
     = (failed ?s (js ''Error processing URL: '' @ js ''Cannot convert object to primitive value''
                   @ js ''. Try pasting text or check the URL/proxy.''),
        [Get (js ''http://localhost:3001/proxy?url=acme'')])"
    by (rule handle_failed [OF g])
  then have "extractionError (fst (handleExtractDetails unprintable_world ?s))
     = js ''Error processing URL: Cannot convert object to primitive value. Try pasting text or check the URL/proxy.''"
    by (simp add: failed_def js_def)
  with f n j show ?thesis by blast
qed

section \<open>Blank content\<close>

text \<open>
  C5. When the proxy fetch succeeds and the selected text is blank after the whitespace
  runs are replaced and the text is trimmed, the run ends with the message that no
  meaningful text could be extracted, and the only request made is the proxy fetch.
\<close>

theorem empty_content:
  assumes "trim (jobPostUrl s) \<noteq> []"
    and "encodeURIComponent w (jobPostUrl s) = Inr enc"
    and "fetch w (proxy_request w enc) = Responded r"
    and "ok r"
    and "body_read r = Inr htmlContent"
    and "selected_text w (parseFromString w htmlContent) = Inr t"
    and "trim (replace_ws_runs t) = []"
  shows "handleExtractDetails w s =
           (failed s (js ''Error processing URL: ''
                      @ js ''Could not extract meaningful text content from the URL after parsing.''
                      @ js ''. Try pasting text or check the URL/proxy.''),
            [proxy_request w enc])"
  using assms by (simp add: handle_failed gather_url url_path_page)

theorem empty_content_witness:
  "handleExtractDetails scenario_C (form (js ''acme'') (js ''pasted text''))
     = (failed (form (js ''acme'') (js ''pasted text''))
          (js ''Error processing URL: Could not extract meaningful text content from the URL after parsing.. Try pasting text or check the URL/proxy.''),
        [Get (js ''http://localhost:3001/proxy?url=acme'')])"
proof -
  let ?s = "form (js ''acme'') (js ''pasted text'')"
  let ?d = "\<lparr>mainContentElement = None, body = Some (js ''   '')\<rparr>"
  have u: "trim (jobPostUrl ?s) \<noteq> []" by (simp add: form_def trim_examples) (simp add: js_def)
  have e: "encodeURIComponent scenario_C (jobPostUrl ?s) = Inr (js ''acme'')"
    by (simp add: scenario_C_def proxy_world_def world0_def form_def)
  have q: "proxy_request scenario_C (js ''acme'') = Get (js ''http://localhost:3001/proxy?url=acme'')"
    by (simp add: proxy_request_def backendBaseUrl_def world0_def scenario_C_def proxy_world_def js_def)
  have f: "fetch scenario_C (proxy_request scenario_C (js ''acme'')) = Responded (ok_response (js ''page''))"
    by (simp add: q) (simp add: scenario_C_def proxy_world_def world0_def)
  have k: "ok (ok_response (js ''page''))" by (simp add: ok_def ok_response_def)
  have b: "body_read (ok_response (js ''page'')) = Inr (js ''page'')" by (simp add: ok_response_def)
  have t: "selected_text scenario_C (parseFromString scenario_C (js ''page'')) = Inr (js ''   '')"
    by (simp add: scenario_C_def proxy_world_def world0_def selected_text_def body_innerText_def)
  have z: "trim (replace_ws_runs (js ''   '')) = []"
    by (simp add: js_def is_ws_def trim_def)
  show ?thesis
    using empty_content [OF u e f k b t z] by (simp add: q) (simp add: js_def)
qed

section \<open>Malformed extraction responses\<close>



section \<open>The proxy endpoint\<close>



section \<open>Facts about the gathered text and the draft\<close>

lemma url_path_Inr:
  "url_path w url = (Inr t, reqs) \<Longrightarrow> \<exists>u. t = trim (replace_ws_runs u) \<and> t \<noteq> []"
  by (auto simp: url_path_def Let_def trim_trim
           split: sum.splits fetch_outcome.splits if_splits)

lemma gather_text_shape:
  assumes "gather_text w s = (Inr t, reqs)"
  shows "t \<noteq> [] \<and> trim t = t
       \<and> (trim (jobPostUrl s) \<noteq> [] \<longrightarrow> no_ws_run t)
       \<and> (trim (jobPostUrl s) = [] \<longrightarrow> t = trim (jobDescriptionText s))"
proof (cases "trim (jobPostUrl s) = []")
  case True
  with assms have "t = trim (jobDescriptionText s) \<and> t \<noteq> []"
    by (auto simp: gather_text_def split: if_splits)
  with True show ?thesis by (auto simp: trim_trim)
next
  case False
  with assms have "url_path w (jobPostUrl s) = (Inr t, reqs)"
    by (auto simp: gather_text_def split: prod.splits sum.splits)
  then obtain u where u: "t = trim (replace_ws_runs u)" "t \<noteq> []"
    using url_path_Inr by blast
  have "no_ws_run t" unfolding u(1) by (intro no_ws_run_trim replace_no_ws_run)
  with u False show ?thesis by (simp add: trim_trim)
qed

lemma proxy_world_page:
  "gather_text (proxy_world (ok_response (js ''page'')) \<lparr>mainContentElement = None, body = Some b\<rparr> p)
     (form (js ''acme'') x)
   = (if trim (replace_ws_runs b) = []
      then Inl (js ''Error processing URL: ''
                @ js ''Could not extract meaningful text content from the URL after parsing.''
                @ js ''. Try pasting text or check the URL/proxy.'')
      else Inr (trim (replace_ws_runs b)),
      [Get (js ''http://localhost:3001/proxy?url=acme'')])"
proof -
  let ?w = "proxy_world (ok_response (js ''page'')) \<lparr>mainContentElement = None, body = Some b\<rparr> p"
  have q: "proxy_request ?w (js ''acme'') = Get (js ''http://localhost:3001/proxy?url=acme'')"
    by (simp add: proxy_request_def backendBaseUrl_def world0_def proxy_world_def js_def)
  have e: "encodeURIComponent ?w (js ''acme'') = Inr (js ''acme'')"
    by (simp add: proxy_world_def world0_def)
  have f: "fetch ?w (proxy_request ?w (js ''acme'')) = Responded (ok_response (js ''page''))"
    by (simp add: q) (simp add: proxy_world_def world0_def)
  have b: "body_read (ok_response (js ''page'')) = Inr (js ''page'')" by (simp add: ok_response_def)
  have t: "selected_text ?w (parseFromString ?w (js ''page'')) = Inr b"
    by (simp add: proxy_world_def world0_def selected_text_def body_innerText_def)
  have u: "trim (jobPostUrl (form (js ''acme'') x)) \<noteq> []"
    by (simp add: form_def trim_examples) (simp add: js_def)
  have "url_path ?w (js ''acme'') =
     (if trim (replace_ws_runs b) = []
      then Inl (js ''Could not extract meaningful text content from the URL after parsing.'')
      else Inr (trim (replace_ws_runs b)), [proxy_request ?w (js ''acme'')])"
    by (rule url_path_page [OF e f ok_ok_response b t])
  then show ?thesis using u by (simp add: gather_url q) (simp add: form_def)
qed

lemma extraction_success:
  "extraction w url t = Inr (Some d) \<Longrightarrow>
   \<exists>r result v data.
     fetch w (Post apiUrl (prompt t)) = Responded r \<and> ok r
     \<and> response_json w r = Inr result
     \<and> envelope_text (typeError w) result = Inr v \<and> truthy v
     \<and> JSON_parse_value w v = Inr data
     \<and> newJobData w url data = Inr d"
  by (auto simp: extraction_def split: fetch_outcome.splits sum.splits if_splits)

lemma newJobData_Inr:
  "newJobData w url data = Inr d \<Longrightarrow>
   d = \<lparr>companyName = js_or (opt_prop data ''companyName'') (JStr []),
        role = js_or (opt_prop data ''role'') (JStr []),
        location = js_or (opt_prop data ''location'') (JStr []),
        job_notes = js_or (opt_prop data ''summary'') (JStr []),
        dateApplied = date_text (now w),
        status = JobStatus_SAVED,
        link = trim url,
        platformPosted = [],
        referralOptions = [],
        personPosted = []\<rparr>"
  by (auto simp: newJobData_def split_T_0_toISOString split: if_splits)

lemma handle_succeeded:
  "gather_text w s = (Inr t, reqs) \<Longrightarrow> extraction w (jobPostUrl s) (truncated t) = Inr (Some d) \<Longrightarrow>
   handleExtractDetails w s = (succeeded s d, reqs @ [Post apiUrl (prompt (truncated t))])"
  by (simp add: handle_submit submit_def)

lemma length_trim_le: "length (trim s) \<le> length s"
proof -
  obtain i j where "trim s = take i (drop j s)" using trim_prefix_suffix by blast
  then show ?thesis by simp
qed

lemma date_text_clock: "date_text 1704074400000 = js ''2024-01-01''"
  by code_simp

lemma local_date_clock: "local_date 1704074400000 (- 300) = js ''2023-12-31''"
  by code_simp

lemma ai_world_extraction:
  assumes "x \<noteq> []" and "x \<noteq> js ''response''"
  shows "extraction (ai_world (envelope (JStr x)) (Inr data)) url t =
     (case newJobData (ai_world (envelope (JStr x)) (Inr data)) url data of
        Inl e \<Rightarrow> Inl e
      | Inr d \<Rightarrow> Inr (Some d))"
proof -
  let ?w = "ai_world (envelope (JStr x)) (Inr data)"
  have p: "JSON_parse_value ?w (JStr x) = Inr data"
    using assms by (simp add: JSON_parse_value_def ai_world_def world0_def)
  show ?thesis
    using assms(1)
    by (simp add: extraction_def ai_world_fetch ok_ok_response ai_world_json
        envelope_text_envelope p)
qed

lemma ai_world_chain:
  assumes "fetch (ai_world (envelope (JStr x)) (Inr data)) (Post u p) = Responded r"
    and "response_json (ai_world (envelope (JStr x)) (Inr data)) r = Inr result"
    and "envelope_text tm result = Inr v"
    and "JSON_parse_value (ai_world (envelope (JStr x)) (Inr data)) v = Inr data'"
    and "x \<noteq> js ''response''"
  shows "data' = data"
proof -
  let ?w = "ai_world (envelope (JStr x)) (Inr data)"
  from assms(1) have r: "r = ok_response (js ''response'')" by (simp add: ai_world_fetch)
  with assms(2) have "result = envelope (JStr x)" by (simp add: ai_world_json)
  with assms(3) have "v = JStr x" by (simp add: envelope_text_envelope)
  with assms(4,5) show ?thesis by (simp add: JSON_parse_value_def ai_world_def world0_def)
qed

lemma extracted_name: "js ''extracted'' \<noteq> []" "js ''extracted'' \<noteq> js ''response''"
  by (simp_all add: js_def)

lemma scenario_A_extraction:
  "extraction scenario_A (jobPostUrl (form [] acme_text)) (truncated acme_text) = Inr (Some acme_draft)"
proof -
  have n: "now scenario_A = 1704074400000"
    by (simp add: scenario_A_def ai_world_def world0_def)
  have "newJobData scenario_A [] acme_fields = Inr acme_draft"
    by (simp add: newJobData_def acme_fields_def acme_draft_def js_or_def split_T_0_toISOString
        n date_text_clock JobStatus_SAVED_def trim_examples)
       (simp add: js_def)
  then show ?thesis
    unfolding scenario_A_def
    by (simp add: ai_world_extraction [OF extracted_name] form_def)
qed

lemma number_world_extraction:
  "extraction number_world (jobPostUrl (form [] acme_text)) (truncated acme_text)
     = Inr (Some (acme_draft\<lparr>companyName := JNum (js ''42''), location := JStr [],
                              job_notes := JStr []\<rparr>))"
proof -
  have n: "now number_world = 1704074400000"
    by (simp add: number_world_def ai_world_def world0_def)
  have "newJobData number_world [] number_fields
     = Inr (acme_draft\<lparr>companyName := JNum (js ''42''), location := JStr [], job_notes := JStr []\<rparr>)"
    by (simp add: newJobData_def number_fields_def acme_draft_def js_or_def split_T_0_toISOString
        n date_text_clock JobStatus_SAVED_def trim_examples)
       (simp add: js_def)
  then show ?thesis
    unfolding number_world_def
    by (simp add: ai_world_extraction [OF extracted_name] form_def)
qed

section \<open>The shape of the submitted text\<close>

text \<open>
  C3, as the code has it. In a run that reaches the extraction call, the submitted
  text is not empty, has at most 28,000 characters and starts with a character that
  is not whitespace; it ends with one that is not whitespace when nothing was cut
  off. On the URL path it has no two whitespace characters in a row. On the
  pasted-text path it is the trimmed pasted text, cut at the cap, with its inner
  whitespace as pasted.
\<close>

theorem submitted_text_shape:
  assumes "gather_text w s = (Inr t, reqs)"
  shows "snd (handleExtractDetails w s) = reqs @ [Post apiUrl (prompt (truncated t))]
       \<and> truncated t \<noteq> []
       \<and> length (truncated t) \<le> 28000
       \<and> \<not> is_ws (hd (truncated t))
       \<and> (length t \<le> 28000 \<longrightarrow> \<not> is_ws (last (truncated t)))
       \<and> (trim (jobPostUrl s) \<noteq> [] \<longrightarrow> no_ws_run (truncated t))
       \<and> (trim (jobPostUrl s) = [] \<longrightarrow> t = trim (jobDescriptionText s))"
proof -
  from gather_text_shape [OF assms]
  have ne: "t \<noteq> []" and tt: "trim t = t"
    and run: "trim (jobPostUrl s) \<noteq> [] \<longrightarrow> no_ws_run t"
    and pasted: "trim (jobPostUrl s) = [] \<longrightarrow> t = trim (jobDescriptionText s)"
    by simp_all
  from ne tt have h: "\<not> is_ws (hd t)" and l: "\<not> is_ws (last t)"
    using trim_hd [of t] trim_last [of t] by simp_all
  have 1: "snd (handleExtractDetails w s) = reqs @ [Post apiUrl (prompt (truncated t))]"
    using assms by (simp add: handle_submit)
  have 2: "truncated t \<noteq> []" using ne by (auto simp: truncated_def)
  have 3: "length (truncated t) \<le> 28000" by (simp add: truncated_def)
  have 4: "\<not> is_ws (hd (truncated t))" using h by (simp add: truncated_def)
  have 5: "length t \<le> 28000 \<longrightarrow> \<not> is_ws (last (truncated t))" using l by (simp add: truncated_def)
  have 6: "trim (jobPostUrl s) \<noteq> [] \<longrightarrow> no_ws_run (truncated t)"
    using run by (auto simp: truncated_def intro: no_ws_run_take)
  from 1 2 3 4 5 6 pasted show ?thesis by blast
qed

theorem submitted_text_shape_witness:
  "gather_text spaced_page (form (js ''acme'') [])
     = (Inr (js ''Senior Engineer''), [Get (js ''http://localhost:3001/proxy?url=acme'')])
   \<and> snd (handleExtractDetails spaced_page (form (js ''acme'') []))
     = [Get (js ''http://localhost:3001/proxy?url=acme''), Post apiUrl (prompt (js ''Senior Engineer''))]
   \<and> no_ws_run (js ''Senior Engineer'')
   \<and> snd (handleExtractDetails world0 (form [] (js '' a  b '')))
     = [Post apiUrl (prompt (js ''a  b''))]"
proof -
  have r: "trim (replace_ws_runs (js ''  Senior   Engineer  '')) = js ''Senior Engineer''"
    by (simp add: js_def is_ws_def trim_def)
  have g: "gather_text spaced_page (form (js ''acme'') [])
     = (Inr (js ''Senior Engineer''), [Get (js ''http://localhost:3001/proxy?url=acme'')])"
    unfolding spaced_page_def by (simp add: proxy_world_page r) (simp add: js_def)
  have t: "truncated (js ''Senior Engineer'') = js ''Senior Engineer''"
    "truncated (js ''a  b'') = js ''a  b''"
    by (simp_all add: truncated_def js_def)
  have u: "trim (jobPostUrl (form (js ''acme'') [])) \<noteq> []"
    by (simp add: form_def trim_examples) (simp add: js_def)
  have p: "trim (js '' a  b '') = js ''a  b''" "js ''a  b'' \<noteq> []"
    by (simp_all add: js_def is_ws_def trim_def)
  have g': "gather_text world0 (form [] (js '' a  b '')) = (Inr (js ''a  b''), [])"
    by (rule trans [OF gather_pasted]) (simp_all add: form_def trim_examples p)
  show ?thesis
    using submitted_text_shape [OF g] submitted_text_shape [OF g'] g u
    by (simp add: t)
qed

text \<open>
  The invariant of the specification fails on the pasted-text path (two spaces stay),
  on the URL path (a newline standing alone stays a newline) and after truncation (the
  cut can leave a space at the end).
\<close>

theorem submitted_text_not_normalized:
  "snd (handleExtractDetails world0 (form [] (js ''a  b''))) = [Post apiUrl (prompt (js ''a  b''))]
   \<and> \<not> NormalizedText (js ''a  b'')
   \<and> snd (handleExtractDetails newline_page (form (js ''acme'') []))
     = [Get (js ''http://localhost:3001/proxy?url=acme''),
        Post apiUrl (prompt (js ''Senior'' @ [0xA] @ js ''Engineer''))]
   \<and> \<not> NormalizedText (js ''Senior'' @ [0xA] @ js ''Engineer'')
   \<and> snd (handleExtractDetails world0 (form [] (replicate 27999 0x61 @ js '' b'')))
     = [Post apiUrl (prompt (replicate 27999 0x61 @ js '' ''))]
   \<and> \<not> NormalizedText (replicate 27999 0x61 @ js '' '')"
proof -
  have p: "trim (js ''a  b'') = js ''a  b''" "js ''a  b'' \<noteq> []"
    by (simp_all add: js_def is_ws_def trim_def)
  have g1: "gather_text world0 (form [] (js ''a  b'')) = (Inr (js ''a  b''), [])"
    by (rule trans [OF gather_pasted]) (simp_all add: form_def trim_examples p)
  have t1: "truncated (js ''a  b'') = js ''a  b''" by (simp add: truncated_def js_def)
  have 1: "snd (handleExtractDetails world0 (form [] (js ''a  b''))) = [Post apiUrl (prompt (js ''a  b''))]"
    by (simp add: handle_submit [OF g1] t1)
  have 2: "\<not> NormalizedText (js ''a  b'')"
    by (simp add: NormalizedText_def js_def is_ws_def)
  let ?n = "js ''Senior'' @ [0xA] @ js ''Engineer''"
  have r: "trim (replace_ws_runs ?n) = ?n"
    by (simp add: js_def is_ws_def trim_def)
  have n: "?n \<noteq> []" by (simp add: js_def)
  have g3: "gather_text newline_page (form (js ''acme'') [])
     = (Inr ?n, [Get (js ''http://localhost:3001/proxy?url=acme'')])"
    unfolding newline_page_def by (simp only: proxy_world_page r n if_False)
  have t3: "truncated ?n = ?n" by (simp add: truncated_def js_def)
  have 3: "snd (handleExtractDetails newline_page (form (js ''acme'') []))
     = [Get (js ''http://localhost:3001/proxy?url=acme''), Post apiUrl (prompt ?n)]"
    using t3 by (simp add: handle_submit [OF g3])
  have 4: "\<not> NormalizedText ?n"
    by (simp add: NormalizedText_def js_def is_ws_def)
  let ?l = "replicate 27999 0x61 @ js '' b''"
  have tl: "trim ?l = ?l"
    by (rule trim_id) (simp_all add: js_def is_ws_def hd_append)
  have g5: "gather_text world0 (form [] ?l) = (Inr ?l, [])"
    by (rule trans [OF gather_pasted]) (simp_all add: form_def trim_examples tl)
  have t5: "truncated ?l = replicate 27999 0x61 @ js '' ''"
    by (simp add: truncated_def js_def)
  have 5: "snd (handleExtractDetails world0 (form [] ?l))
     = [Post apiUrl (prompt (replicate 27999 0x61 @ js '' ''))]"
    using t5 by (simp add: handle_submit [OF g5])
  have 6: "\<not> NormalizedText (replicate 27999 0x61 @ js '' '')"
    by (simp add: NormalizedText_def js_def is_ws_def)
  from 1 2 3 4 5 6 show ?thesis by blast
qed

section \<open>The draft record\<close>

text \<open>
  C7, as the code has it. On a successful run the draft replaces the current job; its
  status is \<open>Saved (Not Applied)\<close>, its link is the trimmed URL field (empty on the
  pasted-text path), the platform, referral and person fields are empty, and the date
  applied is the UTC calendar date of the clock, the text before the \<open>T\<close> of
  \<open>toISOString\<close>. Its notes come from this run's response: the extraction call
  answered with a status from 200 to 299, its body parsed to a result whose candidate
  text is truthy and parsed in turn to the extracted data, and the notes are the
  \<open>summary\<close> of that data when it is truthy and the empty string otherwise.
\<close>

theorem draft_fields:
  assumes "gather_text w s = (Inr t, reqs)"
    and "extraction w (jobPostUrl s) (truncated t) = Inr (Some d)"
  shows "fst (handleExtractDetails w s) = succeeded s d
       \<and> status d = js ''Saved (Not Applied)''
       \<and> link d = trim (jobPostUrl s)
       \<and> (trim (jobPostUrl s) = [] \<longrightarrow> link d = [])
       \<and> (\<exists>r result v data.
             fetch w (Post apiUrl (prompt (truncated t))) = Responded r \<and> ok r
             \<and> response_json w r = Inr result
             \<and> envelope_text (typeError w) result = Inr v \<and> truthy v
             \<and> JSON_parse_value w v = Inr data
             \<and> job_notes d = (if truthy (opt_prop data ''summary'')
                               then opt_prop data ''summary'' else JStr []))
       \<and> platformPosted d = [] \<and> referralOptions d = [] \<and> personPosted d = []
       \<and> dateApplied d = date_text (now w)"
proof -
  from extraction_success [OF assms(2)] obtain r result v data where
    c: "fetch w (Post apiUrl (prompt (truncated t))) = Responded r" "ok r"
      "response_json w r = Inr result"
      "envelope_text (typeError w) result = Inr v" "truthy v"
      "JSON_parse_value w v = Inr data"
    and n: "newJobData w (jobPostUrl s) data = Inr d" by blast
  note d = newJobData_Inr [OF n]
  have nt: "job_notes d = (if truthy (opt_prop data ''summary'')
                               then opt_prop data ''summary'' else JStr [])"
    by (subst d) (simp add: js_or_def)
  have 1: "fst (handleExtractDetails w s) = succeeded s d"
    using assms by (simp add: handle_succeeded)
  have 2: "status d = js ''Saved (Not Applied)''" by (subst d) (simp add: JobStatus_SAVED_def)
  have 3: "link d = trim (jobPostUrl s)" by (subst d) simp
  have 4: "platformPosted d = [] \<and> referralOptions d = [] \<and> personPosted d = []"
    by (subst d, subst d, subst d) simp
  have 5: "dateApplied d = date_text (now w)" by (subst d) simp
  from c nt have 6: "\<exists>r result v data.
             fetch w (Post apiUrl (prompt (truncated t))) = Responded r \<and> ok r
             \<and> response_json w r = Inr result
             \<and> envelope_text (typeError w) result = Inr v \<and> truthy v
             \<and> JSON_parse_value w v = Inr data
             \<and> job_notes d = (if truthy (opt_prop data ''summary'')
                               then opt_prop data ''summary'' else JStr [])" by blast
  from 1 2 3 4 5 6 show ?thesis by simp
qed

theorem draft_fields_witness:
  "fst (handleExtractDetails scenario_A (form [] acme_text)) = succeeded (form [] acme_text) acme_draft
   \<and> status acme_draft = js ''Saved (Not Applied)''
   \<and> link acme_draft = []
   \<and> job_notes acme_draft = opt_prop acme_fields ''summary''
   \<and> opt_prop acme_fields ''summary'' = JStr (js ''Build distributed systems.'')
   \<and> dateApplied acme_draft = date_text (now scenario_A)"
proof -
  note th = draft_fields [OF gather_acme scenario_A_extraction]
  from th obtain r result v data where
    c: "fetch scenario_A (Post apiUrl (prompt (truncated acme_text))) = Responded r"
      "response_json scenario_A r = Inr result"
      "envelope_text (typeError scenario_A) result = Inr v"
      "JSON_parse_value scenario_A v = Inr data"
    and nt: "job_notes acme_draft = (if truthy (opt_prop data ''summary'')
                               then opt_prop data ''summary'' else JStr [])" by blast
  have "data = acme_fields"
    using c extracted_name(2) unfolding scenario_A_def by (rule ai_world_chain)
  moreover have sm: "opt_prop acme_fields ''summary'' = JStr (js ''Build distributed systems.'')"
    by (simp add: acme_fields_def js_def)
  moreover have "js ''Build distributed systems.'' \<noteq> []" by (simp add: js_def)
  ultimately have n: "job_notes acme_draft = opt_prop acme_fields ''summary''"
    using nt by simp
  have "trim (jobPostUrl (form [] acme_text)) = []"
    by (simp add: form_def trim_examples)
  with th n sm show ?thesis by simp
qed

text \<open>
  The date applied is not the local date: at 2024-01-01T02:00:00Z, in a time zone five
  hours west of UTC, the local date is 2023-12-31 and the draft says 2024-01-01.
\<close>

theorem date_applied_not_local:
  "map_option dateApplied (currentJob (fst (handleExtractDetails scenario_A (form [] acme_text))))
     = Some (js ''2024-01-01'')
   \<and> local_date (now scenario_A) (- 300) = js ''2023-12-31''"
proof -
  have n: "now scenario_A = 1704074400000"
    by (simp add: scenario_A_def ai_world_def world0_def)
  have 1: "handleExtractDetails scenario_A (form [] acme_text)
     = (succeeded (form [] acme_text) acme_draft, [Post apiUrl (prompt (truncated acme_text))])"
    using handle_succeeded [OF gather_acme scenario_A_extraction] by simp
  have 2: "local_date (now scenario_A) (- 300) = js ''2023-12-31''"
    by (simp add: n local_date_clock)
  from 1 2 show ?thesis by (simp add: succeeded_def acme_draft_def)
qed

section \<open>No null field in the draft\<close>

text \<open>
  C10, as the code has it. On a successful run none of company name, role, location
  and notes is null or undefined. Each is taken from the data that this run's response
  parsed to (the candidate text of the body of the extraction call's answer): it is
  that data's value when the value is truthy and the empty string otherwise, so it is
  a string whenever the value is a string or falsy.
\<close>

theorem draft_fields_not_null:
  assumes "gather_text w s = (Inr t, reqs)"
    and "extraction w (jobPostUrl s) (truncated t) = Inr (Some d)"
  shows "companyName d \<noteq> JNull \<and> companyName d \<noteq> JUndefined
       \<and> role d \<noteq> JNull \<and> role d \<noteq> JUndefined
       \<and> location d \<noteq> JNull \<and> location d \<noteq> JUndefined
       \<and> job_notes d \<noteq> JNull \<and> job_notes d \<noteq> JUndefined
       \<and> (\<exists>r result v data.
             fetch w (Post apiUrl (prompt (truncated t))) = Responded r \<and> ok r
             \<and> response_json w r = Inr result
             \<and> envelope_text (typeError w) result = Inr v \<and> truthy v
             \<and> JSON_parse_value w v = Inr data
             \<and> companyName d = js_or (opt_prop data ''companyName'') (JStr [])
             \<and> role d = js_or (opt_prop data ''role'') (JStr [])
             \<and> location d = js_or (opt_prop data ''location'') (JStr [])
             \<and> job_notes d = js_or (opt_prop data ''summary'') (JStr [])
             \<and> (is_string (opt_prop data ''companyName'') \<or> \<not> truthy (opt_prop data ''companyName'')
                  \<longrightarrow> is_string (companyName d))
             \<and> (is_string (opt_prop data ''role'') \<or> \<not> truthy (opt_prop data ''role'')
                  \<longrightarrow> is_string (role d))
             \<and> (is_string (opt_prop data ''location'') \<or> \<not> truthy (opt_prop data ''location'')
                  \<longrightarrow> is_string (location d))
             \<and> (is_string (opt_prop data ''summary'') \<or> \<not> truthy (opt_prop data ''summary'')
                  \<longrightarrow> is_string (job_notes d)))"
proof -
  have n: "js_or a (JStr []) \<noteq> JNull \<and> js_or a (JStr []) \<noteq> JUndefined
         \<and> (is_string a \<or> \<not> truthy a \<longrightarrow> is_string (js_or a (JStr [])))" for a
    by (cases a) (auto simp: js_or_def)
  from extraction_success [OF assms(2)] obtain r result v data where
    c: "fetch w (Post apiUrl (prompt (truncated t))) = Responded r" "ok r"
      "response_json w r = Inr result"
      "envelope_text (typeError w) result = Inr v" "truthy v"
      "JSON_parse_value w v = Inr data"
    and nj: "newJobData w (jobPostUrl s) data = Inr d" by blast
  note d = newJobData_Inr [OF nj]
  have f: "companyName d = js_or (opt_prop data ''companyName'') (JStr [])"
    "role d = js_or (opt_prop data ''role'') (JStr [])"
    "location d = js_or (opt_prop data ''location'') (JStr [])"
    "job_notes d = js_or (opt_prop data ''summary'') (JStr [])"
    by (subst d, simp)+
  have 1: "companyName d \<noteq> JNull \<and> companyName d \<noteq> JUndefined
       \<and> role d \<noteq> JNull \<and> role d \<noteq> JUndefined
       \<and> location d \<noteq> JNull \<and> location d \<noteq> JUndefined
       \<and> job_notes d \<noteq> JNull \<and> job_notes d \<noteq> JUndefined"
    using n by (simp add: f)
  have 2: "\<exists>r result v data.
             fetch w (Post apiUrl (prompt (truncated t))) = Responded r \<and> ok r
             \<and> response_json w r = Inr result
             \<and> envelope_text (typeError w) result = Inr v \<and> truthy v
             \<and> JSON_parse_value w v = Inr data
             \<and> companyName d = js_or (opt_prop data ''companyName'') (JStr [])
             \<and> role d = js_or (opt_prop data ''role'') (JStr [])
             \<and> location d = js_or (opt_prop data ''location'') (JStr [])
             \<and> job_notes d = js_or (opt_prop data ''summary'') (JStr [])
             \<and> (is_string (opt_prop data ''companyName'') \<or> \<not> truthy (opt_prop data ''companyName'')
                  \<longrightarrow> is_string (companyName d))
             \<and> (is_string (opt_prop data ''role'') \<or> \<not> truthy (opt_prop data ''role'')
                  \<longrightarrow> is_string (role d))
             \<and> (is_string (opt_prop data ''location'') \<or> \<not> truthy (opt_prop data ''location'')
                  \<longrightarrow> is_string (location d))
             \<and> (is_string (opt_prop data ''summary'') \<or> \<not> truthy (opt_prop data ''summary'')
                  \<longrightarrow> is_string (job_notes d))"
    apply (rule exI [of _ r], rule exI [of _ result], rule exI [of _ v], rule exI [of _ data])
    using c n by (simp add: f)
  from 1 2 show ?thesis by blast
qed

theorem draft_fields_not_null_witness:
  "fst (handleExtractDetails scenario_A (form [] acme_text)) = succeeded (form [] acme_text) acme_draft
   \<and> companyName acme_draft \<noteq> JNull \<and> companyName acme_draft \<noteq> JUndefined
   \<and> role acme_draft \<noteq> JNull \<and> role acme_draft \<noteq> JUndefined
   \<and> location acme_draft \<noteq> JNull \<and> location acme_draft \<noteq> JUndefined
   \<and> job_notes acme_draft \<noteq> JNull \<and> job_notes acme_draft \<noteq> JUndefined
   \<and> companyName acme_draft = js_or (opt_prop acme_fields ''companyName'') (JStr [])
   \<and> is_string (companyName acme_draft)"
proof -
  note th = draft_fields_not_null [OF gather_acme scenario_A_extraction]
  from th obtain r result v data where
    c: "fetch scenario_A (Post apiUrl (prompt (truncated acme_text))) = Responded r"
      "response_json scenario_A r = Inr result"
      "envelope_text (typeError scenario_A) result = Inr v"
      "JSON_parse_value scenario_A v = Inr data"
    and f: "companyName acme_draft = js_or (opt_prop data ''companyName'') (JStr [])"
    and i: "is_string (opt_prop data ''companyName'') \<or> \<not> truthy (opt_prop data ''companyName'')
                  \<longrightarrow> is_string (companyName acme_draft)" by blast
  have e: "data = acme_fields"
    using c extracted_name(2) unfolding scenario_A_def by (rule ai_world_chain)
  have "is_string (opt_prop acme_fields ''companyName'')" by (simp add: acme_fields_def js_def)
  with i e have s: "is_string (companyName acme_draft)" by simp
  have "fst (handleExtractDetails scenario_A (form [] acme_text)) = succeeded (form [] acme_text) acme_draft"
    using handle_succeeded [OF gather_acme scenario_A_extraction] by simp
  with th f e s show ?thesis by blast
qed

text \<open>
  An extracted company name that is a number is carried into the draft as a number.
\<close>

theorem draft_field_not_string:
  "map_option companyName (currentJob (fst (handleExtractDetails number_world (form [] acme_text))))
     = Some (JNum (js ''42''))
   \<and> \<not> is_string (JNum (js ''42''))"
  using handle_succeeded [OF gather_acme number_world_extraction]
  by (simp add: succeeded_def)

section \<open>Content selection\<close>

text \<open>
  C8, as the code has it. With a body, the selected text is the landmark's text when a
  landmark matches and its text has at least 50 characters after trimming, and the
  body text otherwise: when no landmark matches, or when the landmark's text, trimmed,
  is shorter than 50 characters (in particular when it is empty or itself shorter than
  50). A landmark of at least 50 characters after trimming is used also when the
  document has no body.
\<close>

theorem content_selection:
  "(body d = Some b \<longrightarrow>
      selected_text w d =
        Inr (case mainContentElement d of
               None \<Rightarrow> b
             | Some t \<Rightarrow> if length (trim t) < 50 then b else t))
   \<and> (mainContentElement d = Some t \<and> 50 \<le> length (trim t) \<longrightarrow> selected_text w d = Inr t)
   \<and> (mainContentElement d = Some t \<and> length t < 50 \<and> body d = Some b \<longrightarrow>
        selected_text w d = Inr b)"
proof (intro conjI impI)
  assume b: "body d = Some b"
  have e: "length (trim []) < 50" by (simp add: trim_def)
  show "selected_text w d =
        Inr (case mainContentElement d of
               None \<Rightarrow> b
             | Some t \<Rightarrow> if length (trim t) < 50 then b else t)"
  proof (cases "mainContentElement d")
    case None
    with b show ?thesis by (simp add: selected_text_def body_innerText_def)
  next
    case (Some t')
    with b e show ?thesis by (auto simp: selected_text_def body_innerText_def)
  qed
next
  assume a: "mainContentElement d = Some t \<and> 50 \<le> length (trim t)"
  then have "t \<noteq> []" using length_trim_le [of t] by auto
  with a show "selected_text w d = Inr t" by (simp add: selected_text_def)
next
  assume a: "mainContentElement d = Some t \<and> length t < 50 \<and> body d = Some b"
  then have "length (trim t) < 50" using length_trim_le [of t] by simp
  with a show "selected_text w d = Inr b" by (simp add: selected_text_def body_innerText_def)
qed

theorem content_selection_witness:
  "selected_text world0 \<lparr>mainContentElement = Some acme_text, body = Some (js ''Body text'')\<rparr>
     = Inr acme_text
   \<and> selected_text world0 \<lparr>mainContentElement = None, body = Some (js ''Body text'')\<rparr>
     = Inr (js ''Body text'')
   \<and> selected_text world0 \<lparr>mainContentElement = Some (js ''Apply now''), body = Some (js ''Body text'')\<rparr>
     = Inr (js ''Body text'')"
proof -
  have l: "50 \<le> length (trim acme_text)" by (simp add: trim_examples) (simp add: acme_text_def js_def)
  have s: "length (js ''Apply now'') < 50" "length (trim (js ''Apply now'')) < 50"
    by (simp_all add: js_def trim_def is_ws_def)
  have 1: "selected_text world0 \<lparr>mainContentElement = Some acme_text, body = Some (js ''Body text'')\<rparr>
     = Inr acme_text"
    using content_selection [where w = world0 and t = acme_text
        and d = "\<lparr>mainContentElement = Some acme_text, body = Some (js ''Body text'')\<rparr>"] l
    by simp
  have 2: "selected_text world0 \<lparr>mainContentElement = None, body = Some (js ''Body text'')\<rparr>
     = Inr (js ''Body text'')"
    using content_selection [where w = world0 and b = "js ''Body text''"
        and d = "\<lparr>mainContentElement = None, body = Some (js ''Body text'')\<rparr>"]
    by simp
  have 3: "selected_text world0 \<lparr>mainContentElement = Some (js ''Apply now''), body = Some (js ''Body text'')\<rparr>
     = Inr (js ''Body text'')"
    using content_selection [where w = world0 and b = "js ''Body text''" and t = "js ''Apply now''"
        and d = "\<lparr>mainContentElement = Some (js ''Apply now''), body = Some (js ''Body text'')\<rparr>"] s
    by simp
  from 1 2 3 show ?thesis by blast
qed

text \<open>
  A landmark text of 59 characters, of which only 9 are not surrounding whitespace, is
  discarded for the body text, where the specification's rule keeps it.
\<close>

theorem teaser_landmark_discarded:
  "selected_text world0 teaser_doc
     = Inr (js ''Senior Engineer at Acme Corp, Remote. Build distributed systems.'')
   \<and> selectPrimaryContent teaser_doc
     = Some (js ''                         Apply now                         '')
   \<and> length (js ''                         Apply now                         '') = 59"
  by (simp add: selected_text_def body_innerText_def teaser_doc_def selectPrimaryContent_def)
     (simp add: js_def trim_def is_ws_def)

end
